theory Spec2Isabelle
  imports Main "HOL-Library.Sublist"
begin

section \<open>Atlassian Cloud backups: the three Lambda entry points\<close>

text \<open>
  The repository holds three AWS Lambda functions, each a file \<^verbatim>\<open>lambda_function.py\<close>:
  \<^item> \<^verbatim>\<open>confluence/backups-trigger\<close> starts a Confluence Cloud backup;
  \<^item> \<^verbatim>\<open>confluence/backups-download\<close> copies the latest Confluence backup to S3;
  \<^item> \<^verbatim>\<open>jira-backups-download\<close> copies the latest Jira backup to S3.

  The code is straight-line Python over four collaborators: the process environment,
  AWS Secrets Manager, the Atlassian site (through \<^verbatim>\<open>requests\<close>) and S3. The embedding
  keeps the collaborators in a record \<open>world\<close> of answers, and every function returns
  the list of effects it performed, in order, together with its value or the exception it
  raised.
\<close>

subsection \<open>Python values\<close>

text \<open>
  What \<^verbatim>\<open>json.loads\<close> and \<^verbatim>\<open>Response.json()\<close> produce, and what a Lambda event is.
  A float is kept as sign, significand and exponent; only its being zero is ever looked at.
  A \<^verbatim>\<open>dict\<close> with string keys is an association list read with \<open>map_of\<close>.
\<close>

datatype pyfloat = Finite bool nat int | Infinity bool | NaN

datatype pyval =
    PNone
  | PBool bool
  | PInt int
  | PFloat pyfloat
  | PStr string
  | PList "pyval list"
  | PDict "(string \<times> pyval) list"

datatype exn =
    KeyError string
  | TypeError
  | HTTPError nat
  | RuntimeError string
  | External string

text \<open>
  \<open>External\<close> stands for any exception raised inside a collaborator (botocore's
  \<^verbatim>\<open>ClientError\<close>, a \<^verbatim>\<open>requests\<close> connection error, a JSON decoding error).
  The message of the one exception the repository raises itself is what the specification
  calls \<^verbatim>\<open>BackupIncomplete\<close>.
\<close>

definition BackupIncomplete :: exn where
  "BackupIncomplete = RuntimeError ''The latest backup is not finished or was not successful.''"

text \<open>Truthiness, as \<^verbatim>\<open>bool(v)\<close> decides it.\<close>

fun float_is_zero :: "pyfloat \<Rightarrow> bool" where
  "float_is_zero (Finite s m e) = (m = 0)"
| "float_is_zero (Infinity s) = False"
| "float_is_zero NaN = False"

fun truthy :: "pyval \<Rightarrow> bool" where
  "truthy PNone = False"
| "truthy (PBool b) = b"
| "truthy (PInt i) = (i \<noteq> 0)"
| "truthy (PFloat f) = (\<not> float_is_zero f)"
| "truthy (PStr s) = (s \<noteq> [])"
| "truthy (PList xs) = (xs \<noteq> [])"
| "truthy (PDict kvs) = (kvs \<noteq> [])"

text \<open>
  \<^verbatim>\<open>v[k]\<close> for a string key \<open>k\<close>: a lookup in a dict, \<^verbatim>\<open>KeyError\<close> when the key is
  missing, \<^verbatim>\<open>TypeError\<close> on every other value (a list or a string wants an integer
  index, the rest cannot be subscripted).
\<close>

fun subscript :: "pyval \<Rightarrow> string \<Rightarrow> exn + pyval" where
  "subscript (PDict kvs) k = (case map_of kvs k of None \<Rightarrow> Inl (KeyError k) | Some v \<Rightarrow> Inr v)"
| "subscript v k = Inl TypeError"

text \<open>
  \<^verbatim>\<open>k in v\<close> for a string \<open>k\<close>: key membership in a dict, element membership in a list,
  substring test in a string, \<^verbatim>\<open>TypeError\<close> on a value that is not a container.
\<close>

fun contains :: "string \<Rightarrow> pyval \<Rightarrow> exn + bool" where
  "contains k (PDict kvs) = Inr (map_of kvs k \<noteq> None)"
| "contains k (PList xs) = Inr (PStr k \<in> set xs)"
| "contains k (PStr s) = Inr (sublist k s)"
| "contains k v = Inl TypeError"

subsection \<open>Requests, responses, effects\<close>

datatype http_method = GET | POST

record request =
  meth :: http_method
  url :: string
  auth :: "pyval \<times> pyval"
  headers :: "(string \<times> string) list"
  data :: "string option"
  stream :: bool

text \<open>
  A response as the code reads it: \<^verbatim>\<open>status_code\<close> (through \<^verbatim>\<open>raise_for_status\<close>),
  \<^verbatim>\<open>text\<close>, the outcome of \<^verbatim>\<open>json()\<close> and the byte stream \<^verbatim>\<open>raw\<close>.
\<close>

record response =
  status_code :: nat
  resp_text :: string
  json :: "exn + pyval"
  raw :: string

datatype effect =
    Print string
  | GetSecretValue string string
  | Http request
  | UploadFileobj string string string

record datetime =
  year :: nat
  month :: nat
  day :: nat
  hour :: nat
  minute :: nat
  second :: nat
  microsecond :: nat

text \<open>
  The collaborators. \<open>environ\<close> is \<^verbatim>\<open>os.environ\<close>; \<open>boto3_client\<close> says whether
  building a client for a service and region raises; \<open>get_secret_value\<close> answers for a
  region and a secret id; \<open>json_loads\<close> is \<^verbatim>\<open>json.loads\<close>; \<open>py_repr\<close> renders a value
  that is not a string inside an f-string; \<open>http\<close> is the site, answering a request or
  raising; \<open>now\<close> is the UTC clock at the moment the object name is built;
  \<open>upload_fileobj\<close> says whether storing a stream under a bucket and key raises.
  Within one invocation no collaborator is asked the same question twice, so an answer
  per question describes every run.
\<close>

record world =
  environ :: "string \<Rightarrow> string option"
  boto3_client :: "string \<Rightarrow> string option \<Rightarrow> exn option"
  get_secret_value :: "string \<Rightarrow> string \<Rightarrow> exn + pyval"
  json_loads :: "string \<Rightarrow> exn + pyval"
  py_repr :: "pyval \<Rightarrow> string"
  http :: "request \<Rightarrow> exn + response"
  now :: datetime
  upload_fileobj :: "string \<Rightarrow> string \<Rightarrow> string \<Rightarrow> exn option"

subsection \<open>Effects in order, exceptions as values\<close>

type_synonym 'a io = "effect list \<times> (exn + 'a)"

definition ret :: "'a \<Rightarrow> 'a io" where
  "ret x = ([], Inr x)"

definition raise :: "exn \<Rightarrow> 'a io" where
  "raise e = ([], Inl e)"

definition lift :: "exn + 'a \<Rightarrow> 'a io" where
  "lift r = ([], r)"

definition emit :: "effect \<Rightarrow> unit io" where
  "emit eff = ([eff], Inr ())"

definition bind :: "'a io \<Rightarrow> ('a \<Rightarrow> 'b io) \<Rightarrow> 'b io" where
  "bind m f =
     (case snd m of
        Inl e \<Rightarrow> (fst m, Inl e)
      | Inr x \<Rightarrow> (fst m @ fst (f x), snd (f x)))"

definition guard :: "exn option \<Rightarrow> exn + unit" where
  "guard r = (case r of None \<Rightarrow> Inr () | Some e \<Rightarrow> Inl e)"

definition print :: "string \<Rightarrow> unit io" where
  "print s = emit (Print s)"

text \<open>\<^verbatim>\<open>os.environ[k]\<close>.\<close>

definition getenv :: "world \<Rightarrow> string \<Rightarrow> exn + string" where
  "getenv w k = (case environ w k of None \<Rightarrow> Inl (KeyError k) | Some v \<Rightarrow> Inr v)"

text \<open>A value inside an f-string: a string as it is, anything else through \<open>py_repr\<close>.\<close>

fun format_value :: "world \<Rightarrow> pyval \<Rightarrow> string" where
  "format_value w (PStr s) = s"
| "format_value w v = py_repr w v"

text \<open>\<^verbatim>\<open>json.loads(v)\<close>: only a string is parsed.\<close>

fun loads :: "world \<Rightarrow> pyval \<Rightarrow> exn + pyval" where
  "loads w (PStr s) = json_loads w s"
| "loads w v = Inl TypeError"

text \<open>\<^verbatim>\<open>Response.raise_for_status()\<close>: an \<^verbatim>\<open>HTTPError\<close> for 4xx and 5xx.\<close>

definition raise_for_status :: "response \<Rightarrow> exn + unit" where
  "raise_for_status r =
     (if 400 \<le> status_code r \<and> status_code r < 600 then Inl (HTTPError (status_code r))
      else Inr ())"

text \<open>
  \<^verbatim>\<open>requests.get(url, auth=..., stream=...)\<close> and
  \<^verbatim>\<open>requests.post(url, auth=..., headers=..., data=...)\<close>: the request goes out, the site
  answers or the call raises.
\<close>

definition get_request :: "string \<Rightarrow> pyval \<times> pyval \<Rightarrow> bool \<Rightarrow> request" where
  "get_request u credentials st =
     \<lparr>meth = GET, url = u, auth = credentials, headers = [], data = None, stream = st\<rparr>"

definition post_request ::
  "string \<Rightarrow> pyval \<times> pyval \<Rightarrow> (string \<times> string) list \<Rightarrow> string \<Rightarrow> request" where
  "post_request u credentials hs d =
     \<lparr>meth = POST, url = u, auth = credentials, headers = hs, data = Some d, stream = False\<rparr>"

definition requests_get :: "world \<Rightarrow> string \<Rightarrow> pyval \<times> pyval \<Rightarrow> bool \<Rightarrow> response io" where
  "requests_get w u credentials st =
     ([Http (get_request u credentials st)], http w (get_request u credentials st))"

definition requests_post ::
  "world \<Rightarrow> string \<Rightarrow> pyval \<times> pyval \<Rightarrow> (string \<times> string) list \<Rightarrow> string \<Rightarrow> response io" where
  "requests_post w u credentials hs d =
     ([Http (post_request u credentials hs d)], http w (post_request u credentials hs d))"

subsection \<open>Credentials (the same text in all three files)\<close>

definition get_secret :: "world \<Rightarrow> pyval io" where
  "get_secret w =
     bind (lift (getenv w ''CREDENTIALS_SECRET_REGION_NAME'')) (\<lambda>region.
     bind (lift (guard (boto3_client w ''secretsmanager'' (Some region)))) (\<lambda>_.
     bind (lift (getenv w ''CREDENTIALS_SECRET_NAME'')) (\<lambda>secret_id.
     bind ([GetSecretValue region secret_id], get_secret_value w region secret_id)
       (\<lambda>get_secret_value_response.
     bind (lift (subscript get_secret_value_response ''SecretString'')) (\<lambda>secret_string.
     lift (loads w secret_string))))))"

definition get_credentials :: "world \<Rightarrow> (pyval \<times> pyval) io" where
  "get_credentials w =
     bind (get_secret w) (\<lambda>secret.
     bind (lift (subscript secret ''email'')) (\<lambda>email.
     bind (lift (subscript secret ''api_token'')) (\<lambda>api_token.
     ret (email, api_token))))"

definition get_site_name :: "world \<Rightarrow> string io" where
  "get_site_name w = lift (getenv w ''SITE_NAME'')"

subsection \<open>confluence/backups-trigger\<close>

definition are_attachments_included :: "pyval \<Rightarrow> exn + string" where
  "are_attachments_included event =
     (case contains ''includeAttachments'' event of
        Inl e \<Rightarrow> Inl e
      | Inr False \<Rightarrow> Inr ''false''
      | Inr True \<Rightarrow>
          (case subscript event ''includeAttachments'' of
             Inl e \<Rightarrow> Inl e
           | Inr v \<Rightarrow> if truthy v then Inr ''true'' else Inr ''false''))"

definition trigger_body :: "string \<Rightarrow> string" where
  \<open>trigger_body include_attachments =
     ''{"cbAttachments":"'' @ include_attachments @ ''", "exportToCloud":"true"}''\<close>

definition trigger_headers :: "(string \<times> string) list" where
  "trigger_headers = [(''Content-Type'', ''application/json''), (''Accept'', ''application/json'')]"

definition trigger_backup :: "world \<Rightarrow> pyval \<times> pyval \<Rightarrow> string \<Rightarrow> unit io" where
  "trigger_backup w credentials include_attachments =
     bind (lift (getenv w ''SITE_NAME'')) (\<lambda>site_name.
     bind (print ''Triggering Jira Cloud backup...'') (\<lambda>_.
     bind (requests_post w (''https://'' @ site_name @ ''/wiki/rest/obm/1.0/runbackup'')
             credentials trigger_headers (trigger_body include_attachments)) (\<lambda>response.
     lift (raise_for_status response))))"

definition trigger_lambda_handler :: "world \<Rightarrow> pyval \<Rightarrow> 'c \<Rightarrow> pyval io" where
  "trigger_lambda_handler w event context =
     bind (get_credentials w) (\<lambda>credentials.
     bind (lift (are_attachments_included event)) (\<lambda>include_attachments.
     bind (trigger_backup w credentials include_attachments) (\<lambda>_.
     ret (PDict [(''status'', PStr ''success'')]))))"

subsection \<open>Clock readings and \<^verbatim>\<open>strftime\<close>\<close>

text \<open>
  \<^verbatim>\<open>strftime('%Y-%m-%dT%H-%M-%SZ')\<close>, the only format the code uses: the year on four
  digits, each other field on two, padded with zeros. (Below the year 1000 the C library
  may leave the padding out; the theorems about names keep to four-digit years.)
\<close>

definition digit_char :: "nat \<Rightarrow> char" where
  "digit_char n = ''0123456789'' ! (n mod 10)"

fun digits :: "nat \<Rightarrow> string" where
  "digits n = (if n < 10 then [digit_char n] else digits (n div 10) @ [digit_char (n mod 10)])"

definition zero_pad :: "nat \<Rightarrow> nat \<Rightarrow> string" where
  "zero_pad k n = replicate (k - length (digits n)) (CHR ''0'') @ digits n"

definition strftime :: "datetime \<Rightarrow> string" where
  "strftime dt =
     zero_pad 4 (year dt) @ ''-'' @ zero_pad 2 (month dt) @ ''-'' @ zero_pad 2 (day dt) @ ''T'' @
     zero_pad 2 (hour dt) @ ''-'' @ zero_pad 2 (minute dt) @ ''-'' @ zero_pad 2 (second dt) @ ''Z''"

text \<open>Reading a decimal numeral back, to tell two formatted fields apart.\<close>

definition digit_val :: "char \<Rightarrow> nat" where
  "digit_val c = of_char c - 48"

definition undigits :: "string \<Rightarrow> nat" where
  "undigits s = foldl (\<lambda>a c. 10 * a + digit_val c) 0 s"

text \<open>The ranges Python's \<^verbatim>\<open>datetime\<close> keeps its fields in, with a four-digit year.\<close>

definition clock_reading :: "datetime \<Rightarrow> bool" where
  "clock_reading dt =
     (1000 \<le> year dt \<and> year dt \<le> 9999 \<and> 1 \<le> month dt \<and> month dt \<le> 12 \<and>
      1 \<le> day dt \<and> day dt \<le> 31 \<and> hour dt < 24 \<and> minute dt < 60 \<and> second dt < 60 \<and>
      microsecond dt < 1000000)"

subsection \<open>confluence/backups-download\<close>

definition confluence_get_download_url :: "world \<Rightarrow> pyval \<times> pyval \<Rightarrow> string \<Rightarrow> pyval io" where
  "confluence_get_download_url w credentials site_name =
     bind (print ''Querying status of the latest backup...'') (\<lambda>_.
     bind (requests_get w (''https://'' @ site_name @ ''/wiki/rest/obm/1.0/getprogress.json'')
             credentials False) (\<lambda>status_resp.
     bind (lift (raise_for_status status_resp)) (\<lambda>_.
     bind (lift (json status_resp)) (\<lambda>body.
     bind (lift (subscript body ''currentStatus'')) (\<lambda>status.
     bind (print (''Task status: '' @ format_value w status)) (\<lambda>_.
     if status \<noteq> PStr ''COMPLETE'' then raise BackupIncomplete
     else
       bind (lift (json status_resp)) (\<lambda>body.
       bind (lift (subscript body ''fileName'')) (\<lambda>download_url.
       bind (print (''Backup file available at URL: '' @ format_value w download_url)) (\<lambda>_.
       ret download_url)))))))))"

definition confluence_download_file ::
  "world \<Rightarrow> pyval \<times> pyval \<Rightarrow> string \<Rightarrow> pyval \<Rightarrow> string io" where
  "confluence_download_file w credentials site_name download_url =
     bind (print (''Downloading from: '' @ format_value w download_url)) (\<lambda>_.
     bind (requests_get w (''https://'' @ site_name @ ''/wiki/download/'' @
                           format_value w download_url) credentials True) (\<lambda>backup_file.
     bind (lift (raise_for_status backup_file)) (\<lambda>_.
     ret (raw backup_file))))"

definition confluence_upload_to_s3 :: "world \<Rightarrow> string \<Rightarrow> string io" where
  "confluence_upload_to_s3 w backup_file =
     (let filename = ''confluence-backup-'' @ strftime (now w) @ ''.zip'' in
      bind (print (''Uploading to S3: '' @ filename)) (\<lambda>_.
      bind (lift (guard (boto3_client w ''s3'' None))) (\<lambda>_.
      bind (lift (getenv w ''S3_BUCKET_NAME'')) (\<lambda>bucket.
      bind ([UploadFileobj bucket filename backup_file],
            guard (upload_fileobj w bucket filename backup_file)) (\<lambda>_.
      ret filename)))))"

definition confluence_lambda_handler :: "world \<Rightarrow> pyval \<Rightarrow> 'c \<Rightarrow> pyval io" where
  "confluence_lambda_handler w event context =
     bind (get_credentials w) (\<lambda>credentials.
     bind (get_site_name w) (\<lambda>site_name.
     bind (confluence_get_download_url w credentials site_name) (\<lambda>download_url.
     bind (confluence_download_file w credentials site_name download_url) (\<lambda>backup_file.
     bind (confluence_upload_to_s3 w backup_file) (\<lambda>filename.
     ret (PDict [(''status'', PStr ''success''), (''filename'', PStr filename)]))))))"

subsection \<open>jira-backups-download\<close>

definition jira_get_task_id :: "world \<Rightarrow> pyval \<times> pyval \<Rightarrow> string \<Rightarrow> string io" where
  "jira_get_task_id w credentials site_name =
     bind (print ''Querying latest task ID...'') (\<lambda>_.
     bind (requests_get w (''https://'' @ site_name @ ''/rest/backup/1/export/lastTaskId'')
             credentials False) (\<lambda>status_resp.
     bind (lift (raise_for_status status_resp)) (\<lambda>_.
     bind (print (''Task ID: '' @ resp_text status_resp)) (\<lambda>_.
     ret (resp_text status_resp)))))"

definition jira_get_download_url ::
  "world \<Rightarrow> pyval \<times> pyval \<Rightarrow> string \<Rightarrow> string \<Rightarrow> pyval io" where
  "jira_get_download_url w credentials site_name task_id =
     bind (print (''Querying status of task ID '' @ task_id @ ''...'')) (\<lambda>_.
     bind (requests_get w (''https://'' @ site_name @
                           ''/rest/backup/1/export/getProgress?taskId='' @ task_id)
             credentials False) (\<lambda>status_resp.
     bind (lift (raise_for_status status_resp)) (\<lambda>_.
     bind (lift (json status_resp)) (\<lambda>body.
     bind (lift (subscript body ''status'')) (\<lambda>status.
     bind (print (''Task status: '' @ format_value w status)) (\<lambda>_.
     if status \<noteq> PStr ''Success'' then raise BackupIncomplete
     else
       bind (lift (json status_resp)) (\<lambda>body.
       bind (lift (subscript body ''result'')) (\<lambda>download_url.
       bind (print (''Backup file available at URL: '' @ format_value w download_url)) (\<lambda>_.
       ret download_url)))))))))"

definition jira_download_file ::
  "world \<Rightarrow> pyval \<times> pyval \<Rightarrow> string \<Rightarrow> pyval \<Rightarrow> string io" where
  "jira_download_file w credentials site_name download_url =
     bind (print (''Downloading from: '' @ format_value w download_url)) (\<lambda>_.
     bind (requests_get w (''https://'' @ site_name @ ''/plugins/servlet/'' @
                           format_value w download_url) credentials True) (\<lambda>backup_file.
     bind (lift (raise_for_status backup_file)) (\<lambda>_.
     ret (raw backup_file))))"

definition jira_upload_to_s3 :: "world \<Rightarrow> string \<Rightarrow> string io" where
  "jira_upload_to_s3 w backup_file =
     (let filename = ''jira-backup-'' @ strftime (now w) @ ''.zip'' in
      bind (print (''Uploading to S3: '' @ filename)) (\<lambda>_.
      bind (lift (guard (boto3_client w ''s3'' None))) (\<lambda>_.
      bind (lift (getenv w ''S3_BUCKET_NAME'')) (\<lambda>bucket.
      bind ([UploadFileobj bucket filename backup_file],
            guard (upload_fileobj w bucket filename backup_file)) (\<lambda>_.
      ret filename)))))"

definition jira_lambda_handler :: "world \<Rightarrow> pyval \<Rightarrow> 'c \<Rightarrow> pyval io" where
  "jira_lambda_handler w event context =
     bind (get_credentials w) (\<lambda>credentials.
     bind (get_site_name w) (\<lambda>site_name.
     bind (jira_get_task_id w credentials site_name) (\<lambda>task_id.
     bind (jira_get_download_url w credentials site_name task_id) (\<lambda>download_url.
     bind (jira_download_file w credentials site_name download_url) (\<lambda>backup_file.
     bind (jira_upload_to_s3 w backup_file) (\<lambda>filename.
     ret (PDict [(''status'', PStr ''success''), (''filename'', PStr filename)])))))))"

subsection \<open>Reading a trace\<close>

definition http_requests :: "effect list \<Rightarrow> request list" where
  "http_requests t = concat (map (\<lambda>eff. case eff of Http r \<Rightarrow> [r] | _ \<Rightarrow> []) t)"

definition uploads :: "effect list \<Rightarrow> (string \<times> string \<times> string) list" where
  "uploads t =
     concat (map (\<lambda>eff. case eff of UploadFileobj b k s \<Rightarrow> [(b, k, s)] | _ \<Rightarrow> []) t)"

subsection \<open>Example worlds\<close>

text \<open>
  A configured Lambda: the four environment variables of the README headers, a secret
  with both fields, clients that can be built, a bucket that accepts every object. The
  site and the clock are left open.
\<close>

definition example_secret_string :: string where
  \<open>example_secret_string = ''{"email": "ops@example.com", "api_token": "s3cr3t"}''\<close>

definition example_credentials :: "pyval \<times> pyval" where
  "example_credentials = (PStr ''ops@example.com'', PStr ''s3cr3t'')"

definition example_environ :: "string \<Rightarrow> string option" where
  "example_environ =
     [''SITE_NAME'' \<mapsto> ''example.atlassian.net'',
      ''CREDENTIALS_SECRET_NAME'' \<mapsto> ''atlassian/backups/credentials'',
      ''CREDENTIALS_SECRET_REGION_NAME'' \<mapsto> ''us-east-1'',
      ''S3_BUCKET_NAME'' \<mapsto> ''backups'']"

definition example_world ::
  "string \<Rightarrow> (request \<Rightarrow> exn + response) \<Rightarrow> datetime \<Rightarrow> world" where
  "example_world secret_string site clock =
     \<lparr>environ = example_environ,
      boto3_client = (\<lambda>service region. None),
      get_secret_value = (\<lambda>region secret_id.
        if region = ''us-east-1'' \<and> secret_id = ''atlassian/backups/credentials''
        then Inr (PDict [(''Name'', PStr secret_id), (''SecretString'', PStr secret_string)])
        else Inl (External ''ResourceNotFoundException'')),
      json_loads = (\<lambda>s.
        if s = example_secret_string
        then Inr (PDict [(''email'', PStr ''ops@example.com''), (''api_token'', PStr ''s3cr3t'')])
        else if s = ''{}'' then Inr (PDict [])
        else Inl (External ''JSONDecodeError'')),
      py_repr = (\<lambda>v. ''<repr>''),
      http = site,
      now = clock,
      upload_fileobj = (\<lambda>bucket key body. None)\<rparr>"

definition ok_response :: "string \<Rightarrow> exn + pyval \<Rightarrow> string \<Rightarrow> response" where
  "ok_response t j s = \<lparr>status_code = 200, resp_text = t, json = j, raw = s\<rparr>"

text \<open>A Confluence site whose progress endpoint reports \<open>status\<close> and the file \<^verbatim>\<open>backup.zip\<close>.\<close>

definition confluence_site :: "string \<Rightarrow> request \<Rightarrow> exn + response" where
  "confluence_site status req =
     (if url req = ''https://example.atlassian.net/wiki/rest/obm/1.0/getprogress.json''
      then Inr (ok_response [] (Inr (PDict [(''currentStatus'', PStr status),
                                           (''fileName'', PStr ''backup.zip'')])) [])
      else if url req = ''https://example.atlassian.net/wiki/download/backup.zip''
      then Inr (ok_response [] (Inl (External ''JSONDecodeError'')) ''PK-confluence'')
      else if url req = ''https://example.atlassian.net/wiki/rest/obm/1.0/runbackup''
      then Inr (ok_response [] (Inl (External ''JSONDecodeError'')) [])
      else Inl (External ''ConnectionError''))"

text \<open>A Jira site whose last task is 42, reporting \<open>status\<close> and the result \<^verbatim>\<open>export.zip\<close>.\<close>

definition jira_site :: "string \<Rightarrow> request \<Rightarrow> exn + response" where
  "jira_site status req =
     (if url req = ''https://example.atlassian.net/rest/backup/1/export/lastTaskId''
      then Inr (ok_response ''42'' (Inr (PInt 42)) [])
      else if url req = ''https://example.atlassian.net/rest/backup/1/export/getProgress?taskId=42''
      then Inr (ok_response [] (Inr (PDict [(''status'', PStr status),
                                           (''result'', PStr ''export.zip'')])) [])
      else if url req = ''https://example.atlassian.net/plugins/servlet/export.zip''
      then Inr (ok_response [] (Inl (External ''JSONDecodeError'')) ''PK-jira'')
      else Inl (External ''ConnectionError''))"

definition clock_030405 :: "nat \<Rightarrow> datetime" where
  "clock_030405 us =
     \<lparr>year = 2025, month = 1, day = 2, hour = 3, minute = 4, second = 5, microsecond = us\<rparr>"

section \<open>Properties\<close>

subsection \<open>Traces and results of sequenced steps\<close>

lemma fst_bind:
  "fst (bind m f) = (case snd m of Inl e \<Rightarrow> fst m | Inr x \<Rightarrow> fst m @ fst (f x))"
  by (simp add: bind_def split: sum.split)

lemma snd_bind:
  "snd (bind m f) = (case snd m of Inl e \<Rightarrow> Inl e | Inr x \<Rightarrow> snd (f x))"
  by (simp add: bind_def split: sum.split)

lemma io_parts:
  "fst (lift r) = []" "snd (lift r) = r"
  "fst (ret x) = []" "snd (ret x) = Inr x"
  "fst (raise e) = []" "snd (raise e) = Inl e"
  "fst (print s) = [Print s]" "snd (print s) = Inr ()"
  by (simp_all add: lift_def ret_def raise_def print_def emit_def)

lemmas io_simps = fst_bind snd_bind io_parts

lemma http_requests_simps [simp]:
  "http_requests [] = []"
  "http_requests (Print s # t) = http_requests t"
  "http_requests (GetSecretValue a b # t) = http_requests t"
  "http_requests (Http r # t) = r # http_requests t"
  "http_requests (UploadFileobj b k x # t) = http_requests t"
  "http_requests (t @ t') = http_requests t @ http_requests t'"
  by (simp_all add: http_requests_def)

lemma uploads_simps [simp]:
  "uploads [] = []"
  "uploads (Print s # t) = uploads t"
  "uploads (GetSecretValue a b # t) = uploads t"
  "uploads (Http r # t) = uploads t"
  "uploads (UploadFileobj b k x # t) = (b, k, x) # uploads t"
  "uploads (t @ t') = uploads t @ uploads t'"
  by (simp_all add: uploads_def)

lemma get_secret_no_requests: "http_requests (fst (get_secret w)) = []"
  by (simp add: get_secret_def io_simps split: sum.split)

lemma get_credentials_no_requests [simp]: "http_requests (fst (get_credentials w)) = []"
  by (simp add: get_credentials_def io_simps get_secret_no_requests split: sum.split)

lemma get_credentials_no_uploads [simp]: "uploads (fst (get_credentials w)) = []"
  by (simp add: get_credentials_def get_secret_def io_simps split: sum.split)

subsection \<open>Decimal fields\<close>

declare digits.simps [simp del]

lemma digit_val_digit_char: "n < 10 \<Longrightarrow> digit_val (digit_char n) = n"
proof -
  assume "n < 10"
  then have "n \<in> {0, 1, 2, 3, 4, 5, 6, 7, 8, 9}" by auto
  then show ?thesis
    by (auto simp add: digit_val_def digit_char_def)
qed

lemma undigits_snoc: "undigits (s @ [c]) = 10 * undigits s + digit_val c"
  by (simp add: undigits_def)

lemma undigits_digits: "undigits (digits n) = n"
proof (induction n rule: digits.induct)
  case (1 n)
  show ?case
  proof (cases "n < 10")
    case True
    then show ?thesis
      by (simp add: digits.simps [of n] undigits_def digit_val_digit_char)
  next
    case False
    with 1 have "undigits (digits (n div 10)) = n div 10" by simp
    with False show ?thesis
      by (simp add: digits.simps [of n] undigits_snoc digit_val_digit_char)
  qed
qed

lemma undigits_zeros: "foldl (\<lambda>a c. 10 * a + digit_val c) 0 (replicate j (CHR ''0'')) = 0"
  by (induction j) (simp_all add: digit_val_def)

lemma undigits_zero_pad: "undigits (zero_pad k n) = n"
  using undigits_digits [of n]
  by (simp add: zero_pad_def undigits_def undigits_zeros)

lemma length_digits_2: "n < 100 \<Longrightarrow> length (digits n) \<le> 2"
  by (simp add: digits.simps [of n] digits.simps [of "n div 10"])

lemma length_digits_4: "n < 10000 \<Longrightarrow> length (digits n) \<le> 4"
proof -
  assume n: "n < 10000"
  then have "n div 10 div 10 < 100" by simp
  then have "length (digits (n div 10 div 10)) \<le> 2" by (rule length_digits_2)
  then show ?thesis
    by (simp add: digits.simps [of n] digits.simps [of "n div 10"])
qed

lemma length_zero_pad: "length (digits n) \<le> k \<Longrightarrow> length (zero_pad k n) = k"
  by (simp add: zero_pad_def)

lemma zero_pad_inj: "zero_pad k m = zero_pad k n \<Longrightarrow> m = n"
proof -
  assume "zero_pad k m = zero_pad k n"
  then have "undigits (zero_pad k m) = undigits (zero_pad k n)" by (rule arg_cong)
  then show ?thesis by (simp only: undigits_zero_pad)
qed

lemma strftime_inj:
  assumes a: "clock_reading a" and b: "clock_reading b" and eq: "strftime a = strftime b"
  shows "year a = year b \<and> month a = month b \<and> day a = day b \<and>
         hour a = hour b \<and> minute a = minute b \<and> second a = second b"
proof -
  have la: "length (zero_pad 4 (year a)) = 4" "length (zero_pad 2 (month a)) = 2"
    "length (zero_pad 2 (day a)) = 2" "length (zero_pad 2 (hour a)) = 2"
    "length (zero_pad 2 (minute a)) = 2" "length (zero_pad 2 (second a)) = 2"
    using a by (simp_all add: clock_reading_def length_zero_pad length_digits_2 length_digits_4)
  have lb: "length (zero_pad 4 (year b)) = 4" "length (zero_pad 2 (month b)) = 2"
    "length (zero_pad 2 (day b)) = 2" "length (zero_pad 2 (hour b)) = 2"
    "length (zero_pad 2 (minute b)) = 2" "length (zero_pad 2 (second b)) = 2"
    using b by (simp_all add: clock_reading_def length_zero_pad length_digits_2 length_digits_4)
  from eq la lb have
    "zero_pad 4 (year a) = zero_pad 4 (year b) \<and> zero_pad 2 (month a) = zero_pad 2 (month b) \<and>
     zero_pad 2 (day a) = zero_pad 2 (day b) \<and> zero_pad 2 (hour a) = zero_pad 2 (hour b) \<and>
     zero_pad 2 (minute a) = zero_pad 2 (minute b) \<and> zero_pad 2 (second a) = zero_pad 2 (second b)"
    by (simp add: strftime_def)
  then show ?thesis
    by (blast dest: zero_pad_inj)
qed

lemma strftime_example:
  "year dt = 2025 \<Longrightarrow> month dt = 1 \<Longrightarrow> day dt = 2 \<Longrightarrow> hour dt = 3 \<Longrightarrow> minute dt = 4 \<Longrightarrow> second dt = 5 \<Longrightarrow>
   strftime dt = ''2025-01-02T03-04-05Z''"
  by (simp add: strftime_def zero_pad_def digits.simps digit_char_def)

lemma strftime_cong:
  "year a = year b \<Longrightarrow> month a = month b \<Longrightarrow> day a = day b \<Longrightarrow> hour a = hour b \<Longrightarrow> minute a = minute b \<Longrightarrow> second a = second b \<Longrightarrow>
   strftime a = strftime b"
  by (simp add: strftime_def)

subsection \<open>The steps of the Confluence download\<close>

lemma confluence_get_download_url_requests:
  "http_requests (fst (confluence_get_download_url w credentials site_name)) =
     [get_request (''https://'' @ site_name @ ''/wiki/rest/obm/1.0/getprogress.json'') credentials False]"
  by (simp add: confluence_get_download_url_def requests_get_def io_simps split: sum.split)

lemma confluence_get_download_url_uploads:
  "uploads (fst (confluence_get_download_url w credentials site_name)) = []"
  by (simp add: confluence_get_download_url_def requests_get_def io_simps split: sum.split)

lemma confluence_get_download_url_result:
  assumes "http w (get_request (''https://'' @ site_name @ ''/wiki/rest/obm/1.0/getprogress.json'') credentials False) = Inr r"
      and "raise_for_status r = Inr ()"
      and "json r = Inr body"
      and "subscript body ''currentStatus'' = Inr status"
  shows "snd (confluence_get_download_url w credentials site_name) =
           (if status \<noteq> PStr ''COMPLETE'' then Inl BackupIncomplete else subscript body ''fileName'')"
  using assms
  by (simp add: confluence_get_download_url_def requests_get_def io_simps split: sum.split)

lemma confluence_get_download_url_Inr:
  assumes "snd (confluence_get_download_url w credentials site_name) = Inr u"
  shows "\<exists>r body. http w (get_request (''https://'' @ site_name @ ''/wiki/rest/obm/1.0/getprogress.json'') credentials False) = Inr r \<and>
           raise_for_status r = Inr () \<and> json r = Inr body \<and>
           subscript body ''currentStatus'' = Inr (PStr ''COMPLETE'') \<and>
           subscript body ''fileName'' = Inr u"
  using assms
  by (auto simp add: confluence_get_download_url_def requests_get_def io_simps split: sum.splits if_splits)

lemma confluence_download_file_requests:
  "http_requests (fst (confluence_download_file w credentials site_name download_url)) =
     [get_request (''https://'' @ site_name @ ''/wiki/download/'' @ format_value w download_url) credentials True]"
  by (simp add: confluence_download_file_def requests_get_def io_simps split: sum.split)

lemma confluence_download_file_uploads:
  "uploads (fst (confluence_download_file w credentials site_name download_url)) = []"
  by (simp add: confluence_download_file_def requests_get_def io_simps split: sum.split)

lemma confluence_download_file_result:
  assumes "http w (get_request (''https://'' @ site_name @ ''/wiki/download/'' @ format_value w download_url) credentials True) = Inr r"
      and "raise_for_status r = Inr ()"
  shows "snd (confluence_download_file w credentials site_name download_url) = Inr (raw r)"
  using assms
  by (simp add: confluence_download_file_def requests_get_def io_simps split: sum.split)

lemma confluence_upload_to_s3_requests:
  "http_requests (fst (confluence_upload_to_s3 w backup_file)) = []"
  by (simp add: confluence_upload_to_s3_def Let_def io_simps split: sum.split)

lemma confluence_upload_to_s3_uploads:
  "(b, k, s) \<in> set (uploads (fst (confluence_upload_to_s3 w backup_file))) \<Longrightarrow>
     k = ''confluence-backup-'' @ strftime (now w) @ ''.zip'' \<and> s = backup_file \<and> environ w ''S3_BUCKET_NAME'' = Some b"
  by (auto simp add: confluence_upload_to_s3_def Let_def io_simps getenv_def split: sum.splits option.splits)

lemma confluence_upload_to_s3_Inr:
  "snd (confluence_upload_to_s3 w backup_file) = Inr name \<Longrightarrow>
     name = ''confluence-backup-'' @ strftime (now w) @ ''.zip''"
  by (auto simp add: confluence_upload_to_s3_def Let_def io_simps split: sum.splits)

lemma confluence_upload_to_s3_result:
  assumes "boto3_client w ''s3'' None = None"
      and "environ w ''S3_BUCKET_NAME'' = Some bucket"
      and "upload_fileobj w bucket (''confluence-backup-'' @ strftime (now w) @ ''.zip'') backup_file = None"
  shows "snd (confluence_upload_to_s3 w backup_file) = Inr (''confluence-backup-'' @ strftime (now w) @ ''.zip'')"
    and "uploads (fst (confluence_upload_to_s3 w backup_file)) = [(bucket, ''confluence-backup-'' @ strftime (now w) @ ''.zip'', backup_file)]"
  using assms
  by (simp_all add: confluence_upload_to_s3_def Let_def io_simps getenv_def guard_def split: sum.split)

subsection \<open>The steps of the Jira download\<close>

lemma jira_get_task_id_requests:
  "http_requests (fst (jira_get_task_id w credentials site_name)) =
     [get_request (''https://'' @ site_name @ ''/rest/backup/1/export/lastTaskId'') credentials False]"
  by (simp add: jira_get_task_id_def requests_get_def io_simps split: sum.split)

lemma jira_get_task_id_uploads:
  "uploads (fst (jira_get_task_id w credentials site_name)) = []"
  by (simp add: jira_get_task_id_def requests_get_def io_simps split: sum.split)

lemma jira_get_task_id_result:
  assumes "http w (get_request (''https://'' @ site_name @ ''/rest/backup/1/export/lastTaskId'') credentials False) = Inr r"
      and "raise_for_status r = Inr ()"
  shows "snd (jira_get_task_id w credentials site_name) = Inr (resp_text r)"
  using assms
  by (simp add: jira_get_task_id_def requests_get_def io_simps split: sum.split)

lemma jira_get_task_id_Inr:
  assumes "snd (jira_get_task_id w credentials site_name) = Inr task_id"
  shows "\<exists>r. http w (get_request (''https://'' @ site_name @ ''/rest/backup/1/export/lastTaskId'') credentials False) = Inr r \<and>
           raise_for_status r = Inr () \<and> resp_text r = task_id"
  using assms
  by (auto simp add: jira_get_task_id_def requests_get_def io_simps split: sum.splits)

lemma jira_get_download_url_requests:
  "http_requests (fst (jira_get_download_url w credentials site_name task_id)) =
     [get_request (''https://'' @ site_name @ ''/rest/backup/1/export/getProgress?taskId='' @ task_id) credentials False]"
  by (simp add: jira_get_download_url_def requests_get_def io_simps split: sum.split)

lemma jira_get_download_url_uploads:
  "uploads (fst (jira_get_download_url w credentials site_name task_id)) = []"
  by (simp add: jira_get_download_url_def requests_get_def io_simps split: sum.split)

lemma jira_get_download_url_result:
  assumes "http w (get_request (''https://'' @ site_name @ ''/rest/backup/1/export/getProgress?taskId='' @ task_id) credentials False) = Inr r"
      and "raise_for_status r = Inr ()"
      and "json r = Inr body"
      and "subscript body ''status'' = Inr status"
  shows "snd (jira_get_download_url w credentials site_name task_id) =
           (if status \<noteq> PStr ''Success'' then Inl BackupIncomplete else subscript body ''result'')"
  using assms
  by (simp add: jira_get_download_url_def requests_get_def io_simps split: sum.split)

lemma jira_get_download_url_Inr:
  assumes "snd (jira_get_download_url w credentials site_name task_id) = Inr u"
  shows "\<exists>r body. http w (get_request (''https://'' @ site_name @ ''/rest/backup/1/export/getProgress?taskId='' @ task_id) credentials False) = Inr r \<and>
           raise_for_status r = Inr () \<and> json r = Inr body \<and>
           subscript body ''status'' = Inr (PStr ''Success'') \<and>
           subscript body ''result'' = Inr u"
  using assms
  by (auto simp add: jira_get_download_url_def requests_get_def io_simps split: sum.splits if_splits)

lemma jira_download_file_requests:
  "http_requests (fst (jira_download_file w credentials site_name download_url)) =
     [get_request (''https://'' @ site_name @ ''/plugins/servlet/'' @ format_value w download_url) credentials True]"
  by (simp add: jira_download_file_def requests_get_def io_simps split: sum.split)

lemma jira_download_file_uploads:
  "uploads (fst (jira_download_file w credentials site_name download_url)) = []"
  by (simp add: jira_download_file_def requests_get_def io_simps split: sum.split)

lemma jira_download_file_result:
  assumes "http w (get_request (''https://'' @ site_name @ ''/plugins/servlet/'' @ format_value w download_url) credentials True) = Inr r"
      and "raise_for_status r = Inr ()"
  shows "snd (jira_download_file w credentials site_name download_url) = Inr (raw r)"
  using assms
  by (simp add: jira_download_file_def requests_get_def io_simps split: sum.split)

lemma jira_upload_to_s3_requests:
  "http_requests (fst (jira_upload_to_s3 w backup_file)) = []"
  by (simp add: jira_upload_to_s3_def Let_def io_simps split: sum.split)

lemma jira_upload_to_s3_uploads:
  "(b, k, s) \<in> set (uploads (fst (jira_upload_to_s3 w backup_file))) \<Longrightarrow>
     k = ''jira-backup-'' @ strftime (now w) @ ''.zip'' \<and> s = backup_file \<and> environ w ''S3_BUCKET_NAME'' = Some b"
  by (auto simp add: jira_upload_to_s3_def Let_def io_simps getenv_def split: sum.splits option.splits)

lemma jira_upload_to_s3_Inr:
  "snd (jira_upload_to_s3 w backup_file) = Inr name \<Longrightarrow>
     name = ''jira-backup-'' @ strftime (now w) @ ''.zip''"
  by (auto simp add: jira_upload_to_s3_def Let_def io_simps split: sum.splits)

lemma jira_upload_to_s3_result:
  assumes "boto3_client w ''s3'' None = None"
      and "environ w ''S3_BUCKET_NAME'' = Some bucket"
      and "upload_fileobj w bucket (''jira-backup-'' @ strftime (now w) @ ''.zip'') backup_file = None"
  shows "snd (jira_upload_to_s3 w backup_file) = Inr (''jira-backup-'' @ strftime (now w) @ ''.zip'')"
    and "uploads (fst (jira_upload_to_s3 w backup_file)) = [(bucket, ''jira-backup-'' @ strftime (now w) @ ''.zip'', backup_file)]"
  using assms
  by (simp_all add: jira_upload_to_s3_def Let_def io_simps getenv_def guard_def split: sum.split)


subsection \<open>The example worlds\<close>

lemma example_environ_simps:
  "example_environ ''SITE_NAME'' = Some ''example.atlassian.net''"
  "example_environ ''CREDENTIALS_SECRET_NAME'' = Some ''atlassian/backups/credentials''"
  "example_environ ''CREDENTIALS_SECRET_REGION_NAME'' = Some ''us-east-1''"
  "example_environ ''S3_BUCKET_NAME'' = Some ''backups''"
  by (simp_all add: example_environ_def)

lemma example_get_credentials:
  "get_credentials (example_world example_secret_string site clock) =
     ([GetSecretValue ''us-east-1'' ''atlassian/backups/credentials''], Inr example_credentials)"
  by (simp add: get_credentials_def get_secret_def example_world_def example_environ_simps
        example_credentials_def getenv_def guard_def bind_def lift_def ret_def)

lemma example_get_credentials_empty:
  "get_credentials (example_world ''{}'' site clock) =
     ([GetSecretValue ''us-east-1'' ''atlassian/backups/credentials''], Inl (KeyError ''email''))"
  by (simp add: get_credentials_def get_secret_def example_world_def example_environ_simps
        example_secret_string_def getenv_def guard_def bind_def lift_def ret_def)

subsection \<open>The steps of the trigger\<close>

lemma are_attachments_included_dict:
  "are_attachments_included (PDict kvs) =
     Inr (if (\<exists>v. map_of kvs ''includeAttachments'' = Some v \<and> truthy v) then ''true'' else ''false'')"
  by (auto simp add: are_attachments_included_def split: option.split sum.split bool.split)

lemma are_attachments_included_flag:
  "are_attachments_included event = Inr flag \<Longrightarrow> flag = ''true'' \<or> flag = ''false''"
  by (auto simp add: are_attachments_included_def split: option.splits sum.splits bool.splits if_splits)

lemma trigger_backup_requests:
  "environ w ''SITE_NAME'' = Some site_name \<Longrightarrow>
   http_requests (fst (trigger_backup w credentials flag)) =
     [post_request (''https://'' @ site_name @ ''/wiki/rest/obm/1.0/runbackup'') credentials
        trigger_headers (trigger_body flag)]"
  by (simp add: trigger_backup_def getenv_def requests_post_def io_simps split: sum.split)

lemma trigger_backup_no_site:
  "environ w ''SITE_NAME'' = None \<Longrightarrow> http_requests (fst (trigger_backup w credentials flag)) = []"
  by (simp add: trigger_backup_def getenv_def requests_post_def io_simps split: sum.split)

lemma trigger_handler_requests:
  assumes "snd (get_credentials w) = Inr credentials"
      and "environ w ''SITE_NAME'' = Some site_name"
      and "are_attachments_included event = Inr flag"
  shows "http_requests (fst (trigger_lambda_handler w event context)) =
           [post_request (''https://'' @ site_name @ ''/wiki/rest/obm/1.0/runbackup'') credentials
              trigger_headers (trigger_body flag)]"
  using assms
  by (simp add: trigger_lambda_handler_def trigger_backup_requests io_simps split: sum.split)

lemma trigger_handler_any_request:
  assumes "r \<in> set (http_requests (fst (trigger_lambda_handler w event context)))"
  shows "meth r = POST \<and> (data r = Some (trigger_body ''true'') \<or> data r = Some (trigger_body ''false''))
         \<and> (\<exists>site_name. environ w ''SITE_NAME'' = Some site_name \<and>
               url r = ''https://'' @ site_name @ ''/wiki/rest/obm/1.0/runbackup'')"
proof (cases "environ w ''SITE_NAME''")
  case None
  with assms show ?thesis
    by (simp add: trigger_lambda_handler_def trigger_backup_no_site io_simps split: sum.splits)
next
  case (Some site_name)
  with assms show ?thesis
    by (auto simp add: trigger_lambda_handler_def trigger_backup_requests io_simps post_request_def
          split: sum.splits dest: are_attachments_included_flag)
qed

subsection \<open>The download handlers and the event\<close>

text \<open>
  C10. Both download entry points ignore the invocation event (and the context): in the
  same world, whatever two events and contexts are passed, the Confluence handler yields
  the same trace of effects and the same result, and so does the Jira handler.
\<close>
theorem download_handlers_ignore_event:
  "confluence_lambda_handler w event1 context1 = confluence_lambda_handler w event2 context2 \<and>
   jira_lambda_handler w event1 context1 = jira_lambda_handler w event2 context2"
  by (simp add: confluence_lambda_handler_def jira_lambda_handler_def)

theorem download_handlers_ignore_event_witness:
  "confluence_lambda_handler (example_world example_secret_string (confluence_site ''COMPLETE'') (clock_030405 0))
       PNone () =
   confluence_lambda_handler (example_world example_secret_string (confluence_site ''COMPLETE'') (clock_030405 0))
       (PDict [(''includeAttachments'', PBool True)]) (Some True) \<and>
   jira_lambda_handler (example_world example_secret_string (jira_site ''Success'') (clock_030405 0))
       PNone () =
   jira_lambda_handler (example_world example_secret_string (jira_site ''Success'') (clock_030405 0))
       (PDict [(''includeAttachments'', PBool True)]) (Some True)"
  using download_handlers_ignore_event
          [of "example_world example_secret_string (confluence_site ''COMPLETE'') (clock_030405 0)"
              PNone "()" "PDict [(''includeAttachments'', PBool True)]" "Some True"]
        download_handlers_ignore_event
          [of "example_world example_secret_string (jira_site ''Success'') (clock_030405 0)"
              PNone "()" "PDict [(''includeAttachments'', PBool True)]" "Some True"]
  by blast

subsection \<open>The trigger\<close>

text \<open>
  C9. The attachment flag follows Python truthiness. For a dict event the flag is
  \<^verbatim>\<open>"true"\<close> exactly when the key \<^verbatim>\<open>includeAttachments\<close> is present with a truthy value
  and \<^verbatim>\<open>"false"\<close> otherwise (key absent, or value falsy); every request the trigger
  handler sends carries the body built from that flag. The string \<^verbatim>\<open>"false"\<close> and the
  number 1 are truthy; \<^verbatim>\<open>False\<close>, 0, the empty string and \<^verbatim>\<open>None\<close> are falsy.
\<close>
theorem attachment_flag_by_truthiness:
  "are_attachments_included (PDict kvs) =
     Inr (if (\<exists>v. map_of kvs ''includeAttachments'' = Some v \<and> truthy v) then ''true'' else ''false'') \<and>
   (\<forall>r \<in> set (http_requests (fst (trigger_lambda_handler w (PDict kvs) context))).
      data r = Some (trigger_body
        (if (\<exists>v. map_of kvs ''includeAttachments'' = Some v \<and> truthy v) then ''true'' else ''false''))) \<and>
   truthy (PStr ''false'') \<and> truthy (PInt 1) \<and>
   \<not> truthy (PBool False) \<and> \<not> truthy (PInt 0) \<and> \<not> truthy (PStr []) \<and> \<not> truthy PNone"
proof -
  let ?flag = "if (\<exists>v. map_of kvs ''includeAttachments'' = Some v \<and> truthy v) then ''true'' else ''false''"
  have flag: "are_attachments_included (PDict kvs) = Inr ?flag"
    by (rule are_attachments_included_dict)
  have "\<forall>r \<in> set (http_requests (fst (trigger_lambda_handler w (PDict kvs) context))).
          data r = Some (trigger_body ?flag)"
  proof (cases "environ w ''SITE_NAME''")
    case None
    then show ?thesis
      by (simp add: trigger_lambda_handler_def trigger_backup_no_site io_simps split: sum.splits)
  next
    case (Some site_name)
    then show ?thesis
      using flag
      by (simp add: trigger_lambda_handler_def trigger_backup_requests io_simps post_request_def
          split: sum.splits)
  qed
  with flag show ?thesis by simp
qed


theorem attachment_flag_by_truthiness_witness:
  \<open>are_attachments_included (PDict [(''includeAttachments'', PStr ''false'')]) = Inr ''true'' \<and>
   map data (http_requests (fst (trigger_lambda_handler
       (example_world example_secret_string (confluence_site ''COMPLETE'') (clock_030405 0))
       (PDict [(''includeAttachments'', PStr ''false'')]) ()))) =
     [Some ''{"cbAttachments":"true", "exportToCloud":"true"}'']\<close>
proof -
  let ?w = "example_world example_secret_string (confluence_site ''COMPLETE'') (clock_030405 0)"
  let ?ev = "PDict [(''includeAttachments'', PStr ''false'')]"
  have creds: "snd (get_credentials ?w) = Inr example_credentials"
    by (simp add: example_get_credentials)
  have site: "environ ?w ''SITE_NAME'' = Some ''example.atlassian.net''"
    by (simp add: example_world_def example_environ_simps)
  have flag: "are_attachments_included ?ev = Inr ''true''"
    by (simp add: are_attachments_included_def)
  have sent: "http_requests (fst (trigger_lambda_handler ?w ?ev ())) =
      [post_request (''https://'' @ ''example.atlassian.net'' @ ''/wiki/rest/obm/1.0/runbackup'')
         example_credentials trigger_headers (trigger_body ''true'')]"
    by (rule trigger_handler_requests [OF creds site flag])
  from attachment_flag_by_truthiness [of "[(''includeAttachments'', PStr ''false'')]" ?w "()"] sent
  show ?thesis
    by (simp add: trigger_body_def post_request_def)
qed

text \<open>
  C6. Whatever the event, every request the trigger handler sends is a POST to the
  run-backup path of the configured site whose body is the text
  \<^verbatim>\<open>{"cbAttachments":"true", "exportToCloud":"true"}\<close> or the same with
  \<^verbatim>\<open>"false"\<close> for \<^verbatim>\<open>cbAttachments\<close>; \<^verbatim>\<open>exportToCloud\<close> is \<^verbatim>\<open>"true"\<close> in both.
  With credentials and site name at hand, a dict event whose \<^verbatim>\<open>includeAttachments\<close> is
  \<^verbatim>\<open>True\<close> sends exactly one request, with the first body; an event without the key or
  with \<^verbatim>\<open>False\<close> sends exactly one request, with the second.
\<close>
theorem trigger_request_body:
  \<open>(\<forall>r \<in> set (http_requests (fst (trigger_lambda_handler w event context))).
      meth r = POST \<and>
      (\<exists>site_name. environ w ''SITE_NAME'' = Some site_name \<and>
         url r = ''https://'' @ site_name @ ''/wiki/rest/obm/1.0/runbackup'') \<and>
      (data r = Some ''{"cbAttachments":"true", "exportToCloud":"true"}'' \<or>
       data r = Some ''{"cbAttachments":"false", "exportToCloud":"true"}'')) \<and>
   (snd (get_credentials w) = Inr credentials \<and> environ w ''SITE_NAME'' = Some site_name \<longrightarrow>
      (map_of kvs ''includeAttachments'' = Some (PBool True) \<longrightarrow>
         http_requests (fst (trigger_lambda_handler w (PDict kvs) context)) =
           [post_request (''https://'' @ site_name @ ''/wiki/rest/obm/1.0/runbackup'') credentials
              [(''Content-Type'', ''application/json''), (''Accept'', ''application/json'')]
              ''{"cbAttachments":"true", "exportToCloud":"true"}'']) \<and>
      (map_of kvs ''includeAttachments'' = None \<or>
       map_of kvs ''includeAttachments'' = Some (PBool False) \<longrightarrow>
         http_requests (fst (trigger_lambda_handler w (PDict kvs) context)) =
           [post_request (''https://'' @ site_name @ ''/wiki/rest/obm/1.0/runbackup'') credentials
              [(''Content-Type'', ''application/json''), (''Accept'', ''application/json'')]
              ''{"cbAttachments":"false", "exportToCloud":"true"}'']))\<close>
proof (intro conjI ballI impI)
  fix r
  assume "r \<in> set (http_requests (fst (trigger_lambda_handler w event context)))"
  from trigger_handler_any_request [OF this]
  show "meth r = POST"
    and "\<exists>site_name. environ w ''SITE_NAME'' = Some site_name \<and>
           url r = ''https://'' @ site_name @ ''/wiki/rest/obm/1.0/runbackup''"
    and \<open>data r = Some ''{"cbAttachments":"true", "exportToCloud":"true"}'' \<or>
         data r = Some ''{"cbAttachments":"false", "exportToCloud":"true"}''\<close>
    by (simp_all add: trigger_body_def)
next
  assume ok: "snd (get_credentials w) = Inr credentials \<and> environ w ''SITE_NAME'' = Some site_name"
    and flag: "map_of kvs ''includeAttachments'' = Some (PBool True)"
  from flag have "are_attachments_included (PDict kvs) = Inr ''true''"
    by (simp add: are_attachments_included_dict)
  with ok trigger_handler_requests [of w credentials site_name "PDict kvs" "''true''" "context"]
  show \<open>http_requests (fst (trigger_lambda_handler w (PDict kvs) context)) =
           [post_request (''https://'' @ site_name @ ''/wiki/rest/obm/1.0/runbackup'') credentials
              [(''Content-Type'', ''application/json''), (''Accept'', ''application/json'')]
              ''{"cbAttachments":"true", "exportToCloud":"true"}'']\<close>
    by (simp add: trigger_body_def trigger_headers_def)
next
  assume ok: "snd (get_credentials w) = Inr credentials \<and> environ w ''SITE_NAME'' = Some site_name"
    and flag: "map_of kvs ''includeAttachments'' = None \<or>
               map_of kvs ''includeAttachments'' = Some (PBool False)"
  from flag have "are_attachments_included (PDict kvs) = Inr ''false''"
    by (auto simp add: are_attachments_included_dict)
  with ok trigger_handler_requests [of w credentials site_name "PDict kvs" "''false''" "context"]
  show \<open>http_requests (fst (trigger_lambda_handler w (PDict kvs) context)) =
           [post_request (''https://'' @ site_name @ ''/wiki/rest/obm/1.0/runbackup'') credentials
              [(''Content-Type'', ''application/json''), (''Accept'', ''application/json'')]
              ''{"cbAttachments":"false", "exportToCloud":"true"}'']\<close>
    by (simp add: trigger_body_def trigger_headers_def)
qed

theorem trigger_request_body_witness:
  \<open>http_requests (fst (trigger_lambda_handler
       (example_world example_secret_string (confluence_site ''COMPLETE'') (clock_030405 0))
       (PDict [(''includeAttachments'', PBool True)]) ())) =
     [post_request ''https://example.atlassian.net/wiki/rest/obm/1.0/runbackup'' example_credentials
        [(''Content-Type'', ''application/json''), (''Accept'', ''application/json'')]
        ''{"cbAttachments":"true", "exportToCloud":"true"}''] \<and>
   http_requests (fst (trigger_lambda_handler
       (example_world example_secret_string (confluence_site ''COMPLETE'') (clock_030405 0))
       (PDict []) ())) =
     [post_request ''https://example.atlassian.net/wiki/rest/obm/1.0/runbackup'' example_credentials
        [(''Content-Type'', ''application/json''), (''Accept'', ''application/json'')]
        ''{"cbAttachments":"false", "exportToCloud":"true"}'']\<close>
proof -
  let ?w = "example_world example_secret_string (confluence_site ''COMPLETE'') (clock_030405 0)"
  have creds: "snd (get_credentials ?w) = Inr example_credentials"
    by (simp add: example_get_credentials)
  have site: "environ ?w ''SITE_NAME'' = Some ''example.atlassian.net''"
    by (simp add: example_world_def example_environ_simps)
  from trigger_request_body [of ?w PNone "()" example_credentials "''example.atlassian.net''"
          "[(''includeAttachments'', PBool True)]"]
       trigger_request_body [of ?w PNone "()" example_credentials "''example.atlassian.net''" "[]"]
       creds site
  show ?thesis by simp
qed


subsection \<open>Credentials first\<close>

lemma get_secret_unavailable:
  assumes "environ w ''CREDENTIALS_SECRET_REGION_NAME'' = Some region"
      and "boto3_client w ''secretsmanager'' (Some region) = None"
      and "environ w ''CREDENTIALS_SECRET_NAME'' = Some secret_id"
      and "get_secret_value w region secret_id = Inl e"
  shows "snd (get_secret w) = Inl e"
  using assms by (simp add: get_secret_def getenv_def guard_def io_simps)

lemma get_credentials_secret_fails: "snd (get_secret w) = Inl e \<Longrightarrow> snd (get_credentials w) = Inl e"
  by (simp add: get_credentials_def io_simps)

lemma get_credentials_malformed:
  assumes "snd (get_secret w) = Inr (PDict kvs)"
      and "map_of kvs ''email'' = None \<or> map_of kvs ''api_token'' = None"
  shows "\<exists>e. snd (get_credentials w) = Inl e"
  using assms by (auto simp add: get_credentials_def io_simps split: option.split sum.split)

lemma handlers_credentials_fail:
  assumes "snd (get_credentials w) = Inl e"
  shows "confluence_lambda_handler w event context = (fst (get_credentials w), Inl e)"
    and "jira_lambda_handler w event context = (fst (get_credentials w), Inl e)"
    and "trigger_lambda_handler w event context = (fst (get_credentials w), Inl e)"
  using assms
  by (simp_all add: confluence_lambda_handler_def jira_lambda_handler_def trigger_lambda_handler_def
        bind_def)

lemma bind_prefix: "\<exists>t. fst (bind m f) = fst m @ t"
  by (simp add: fst_bind split: sum.split)

lemma handlers_start_with_credentials:
  "\<exists>t. fst (confluence_lambda_handler w event context) = fst (get_credentials w) @ t"
  "\<exists>t. fst (jira_lambda_handler w event context) = fst (get_credentials w) @ t"
  "\<exists>t. fst (trigger_lambda_handler w event context) = fst (get_credentials w) @ t"
  by (simp_all only: confluence_lambda_handler_def jira_lambda_handler_def trigger_lambda_handler_def
        bind_prefix)

text \<open>
  C7. Credentials come first in all three entry points. When fetching them fails with an
  exception \<open>e\<close>, each handler stops with \<open>e\<close> and its trace is the trace of the
  fetch, which holds no request to the site. In every run the trace of each handler starts
  with the trace of the fetch. The fetch fails when Secrets Manager raises, and when the
  secret is a dict without \<^verbatim>\<open>email\<close> or without \<^verbatim>\<open>api_token\<close>.
\<close>
theorem credentials_before_site_requests:
  "(snd (get_credentials w) = Inl e \<longrightarrow>
      confluence_lambda_handler w event context = (fst (get_credentials w), Inl e) \<and>
      jira_lambda_handler w event context = (fst (get_credentials w), Inl e) \<and>
      trigger_lambda_handler w event context = (fst (get_credentials w), Inl e)) \<and>
   http_requests (fst (get_credentials w)) = [] \<and>
   (\<exists>t. fst (confluence_lambda_handler w event context) = fst (get_credentials w) @ t) \<and>
   (\<exists>t. fst (jira_lambda_handler w event context) = fst (get_credentials w) @ t) \<and>
   (\<exists>t. fst (trigger_lambda_handler w event context) = fst (get_credentials w) @ t) \<and>
   (environ w ''CREDENTIALS_SECRET_REGION_NAME'' = Some region \<and>
    boto3_client w ''secretsmanager'' (Some region) = None \<and>
    environ w ''CREDENTIALS_SECRET_NAME'' = Some secret_id \<and>
    get_secret_value w region secret_id = Inl e \<longrightarrow> snd (get_credentials w) = Inl e) \<and>
   (snd (get_secret w) = Inr (PDict kvs) \<and>
    (map_of kvs ''email'' = None \<or> map_of kvs ''api_token'' = None) \<longrightarrow>
      (\<exists>e'. snd (get_credentials w) = Inl e'))"
  using handlers_credentials_fail [of w e event "context"]
        handlers_start_with_credentials [of w event "context"]
        get_secret_unavailable [of w region secret_id e]
        get_credentials_secret_fails [of w e]
        get_credentials_malformed [of w kvs]
  by (simp only: get_credentials_no_requests) blast

theorem credentials_before_site_requests_witness:
  "snd (get_credentials (example_world ''{}'' (confluence_site ''COMPLETE'') (clock_030405 0))) =
     Inl (KeyError ''email'') \<and>
   confluence_lambda_handler (example_world ''{}'' (confluence_site ''COMPLETE'') (clock_030405 0)) PNone () =
     ([GetSecretValue ''us-east-1'' ''atlassian/backups/credentials''], Inl (KeyError ''email'')) \<and>
   jira_lambda_handler (example_world ''{}'' (confluence_site ''COMPLETE'') (clock_030405 0)) PNone () =
     ([GetSecretValue ''us-east-1'' ''atlassian/backups/credentials''], Inl (KeyError ''email'')) \<and>
   trigger_lambda_handler (example_world ''{}'' (confluence_site ''COMPLETE'') (clock_030405 0)) PNone () =
     ([GetSecretValue ''us-east-1'' ''atlassian/backups/credentials''], Inl (KeyError ''email'')) \<and>
   http_requests (fst (confluence_lambda_handler
       (example_world ''{}'' (confluence_site ''COMPLETE'') (clock_030405 0)) PNone ())) = []"
proof -
  let ?w = "example_world ''{}'' (confluence_site ''COMPLETE'') (clock_030405 0)"
  have fails: "get_credentials ?w =
      ([GetSecretValue ''us-east-1'' ''atlassian/backups/credentials''], Inl (KeyError ''email''))"
    by (rule example_get_credentials_empty)
  from credentials_before_site_requests [of ?w "KeyError ''email''" PNone "()"] fails
  show ?thesis by simp
qed

subsection \<open>The download handlers, step by step\<close>

lemma confluence_handler_parts:
  assumes "snd (get_credentials w) = Inr credentials"
      and "environ w ''SITE_NAME'' = Some site_name"
  shows "http_requests (fst (confluence_lambda_handler w event context)) =
           get_request (''https://'' @ site_name @ ''/wiki/rest/obm/1.0/getprogress.json'') credentials False #
           (case snd (confluence_get_download_url w credentials site_name) of
              Inl e \<Rightarrow> []
            | Inr u \<Rightarrow> [get_request (''https://'' @ site_name @ ''/wiki/download/'' @ format_value w u)
                          credentials True])"
    and "uploads (fst (confluence_lambda_handler w event context)) =
           (case snd (confluence_get_download_url w credentials site_name) of
              Inl e \<Rightarrow> []
            | Inr u \<Rightarrow>
                (case snd (confluence_download_file w credentials site_name u) of
                   Inl e \<Rightarrow> []
                 | Inr f \<Rightarrow> uploads (fst (confluence_upload_to_s3 w f))))"
    and "snd (confluence_lambda_handler w event context) =
           (case snd (confluence_get_download_url w credentials site_name) of
              Inl e \<Rightarrow> Inl e
            | Inr u \<Rightarrow>
                (case snd (confluence_download_file w credentials site_name u) of
                   Inl e \<Rightarrow> Inl e
                 | Inr f \<Rightarrow>
                     (case snd (confluence_upload_to_s3 w f) of
                        Inl e \<Rightarrow> Inl e
                      | Inr filename \<Rightarrow>
                          Inr (PDict [(''status'', PStr ''success''), (''filename'', PStr filename)]))))"
  using assms
  by (simp_all add: confluence_lambda_handler_def get_site_name_def getenv_def io_simps
        confluence_get_download_url_requests confluence_get_download_url_uploads
        confluence_download_file_requests confluence_download_file_uploads
        confluence_upload_to_s3_requests split: sum.split)

lemma confluence_handler_no_site:
  assumes "environ w ''SITE_NAME'' = None"
  shows "http_requests (fst (confluence_lambda_handler w event context)) = []"
    and "uploads (fst (confluence_lambda_handler w event context)) = []"
  using assms
  by (simp_all add: confluence_lambda_handler_def get_site_name_def getenv_def io_simps split: sum.split)

lemma confluence_handler_no_credentials:
  assumes "snd (get_credentials w) = Inl e"
  shows "http_requests (fst (confluence_lambda_handler w event context)) = []"
    and "uploads (fst (confluence_lambda_handler w event context)) = []"
  using assms
  by (simp_all add: confluence_lambda_handler_def io_simps)

lemma confluence_transfer_needs_url:
  assumes "(\<exists>r \<in> set (http_requests (fst (confluence_lambda_handler w event context))). stream r) \<or>
           uploads (fst (confluence_lambda_handler w event context)) \<noteq> []"
  shows "\<exists>credentials site_name u.
           snd (get_credentials w) = Inr credentials \<and> environ w ''SITE_NAME'' = Some site_name \<and>
           snd (confluence_get_download_url w credentials site_name) = Inr u"
proof (cases "snd (get_credentials w)")
  case (Inl e)
  with assms show ?thesis
    by (simp add: confluence_handler_no_credentials)
next
  case (Inr credentials)
  show ?thesis
  proof (cases "environ w ''SITE_NAME''")
    case None
    with assms show ?thesis
      by (simp add: confluence_handler_no_site)
  next
    case (Some site_name)
    show ?thesis
    proof (cases "snd (confluence_get_download_url w credentials site_name)")
      case (Inl e)
      with assms Inr Some show ?thesis
        by (simp add: confluence_handler_parts [OF Inr Some] get_request_def)
    next
      case u: (Inr u)
      with Inr Some show ?thesis by blast
    qed
  qed
qed

lemma confluence_incomplete:
  assumes creds: "snd (get_credentials w) = Inr credentials"
      and site: "environ w ''SITE_NAME'' = Some site_name"
      and resp: "http w (get_request (''https://'' @ site_name @ ''/wiki/rest/obm/1.0/getprogress.json'')
                   credentials False) = Inr r"
      and ok: "raise_for_status r = Inr ()"
      and body: "json r = Inr body"
      and status: "subscript body ''currentStatus'' = Inr status"
      and neq: "status \<noteq> PStr ''COMPLETE''"
  shows "snd (confluence_lambda_handler w event context) = Inl BackupIncomplete"
    and "http_requests (fst (confluence_lambda_handler w event context)) =
           [get_request (''https://'' @ site_name @ ''/wiki/rest/obm/1.0/getprogress.json'') credentials False]"
    and "uploads (fst (confluence_lambda_handler w event context)) = []"
proof -
  have "snd (confluence_get_download_url w credentials site_name) = Inl BackupIncomplete"
    using confluence_get_download_url_result [OF resp ok body status] neq by simp
  then show "snd (confluence_lambda_handler w event context) = Inl BackupIncomplete"
    and "http_requests (fst (confluence_lambda_handler w event context)) =
           [get_request (''https://'' @ site_name @ ''/wiki/rest/obm/1.0/getprogress.json'') credentials False]"
    and "uploads (fst (confluence_lambda_handler w event context)) = []"
    by (simp_all add: confluence_handler_parts [OF creds site])
qed


lemma jira_handler_parts:
  assumes "snd (get_credentials w) = Inr credentials"
      and "environ w ''SITE_NAME'' = Some site_name"
  shows "http_requests (fst (jira_lambda_handler w event context)) =
           get_request (''https://'' @ site_name @ ''/rest/backup/1/export/lastTaskId'') credentials False #
           (case snd (jira_get_task_id w credentials site_name) of
              Inl e \<Rightarrow> []
            | Inr task_id \<Rightarrow>
                get_request (''https://'' @ site_name @ ''/rest/backup/1/export/getProgress?taskId='' @ task_id)
                  credentials False #
                (case snd (jira_get_download_url w credentials site_name task_id) of
                   Inl e \<Rightarrow> []
                 | Inr u \<Rightarrow> [get_request (''https://'' @ site_name @ ''/plugins/servlet/'' @ format_value w u)
                               credentials True]))"
    and "uploads (fst (jira_lambda_handler w event context)) =
           (case snd (jira_get_task_id w credentials site_name) of
              Inl e \<Rightarrow> []
            | Inr task_id \<Rightarrow>
                (case snd (jira_get_download_url w credentials site_name task_id) of
                   Inl e \<Rightarrow> []
                 | Inr u \<Rightarrow>
                     (case snd (jira_download_file w credentials site_name u) of
                        Inl e \<Rightarrow> []
                      | Inr f \<Rightarrow> uploads (fst (jira_upload_to_s3 w f)))))"
    and "snd (jira_lambda_handler w event context) =
           (case snd (jira_get_task_id w credentials site_name) of
              Inl e \<Rightarrow> Inl e
            | Inr task_id \<Rightarrow>
                (case snd (jira_get_download_url w credentials site_name task_id) of
                   Inl e \<Rightarrow> Inl e
                 | Inr u \<Rightarrow>
                     (case snd (jira_download_file w credentials site_name u) of
                        Inl e \<Rightarrow> Inl e
                      | Inr f \<Rightarrow>
                          (case snd (jira_upload_to_s3 w f) of
                             Inl e \<Rightarrow> Inl e
                           | Inr filename \<Rightarrow>
                               Inr (PDict [(''status'', PStr ''success''), (''filename'', PStr filename)])))))"
  using assms
  by (simp_all add: jira_lambda_handler_def get_site_name_def getenv_def io_simps
        jira_get_task_id_requests jira_get_task_id_uploads
        jira_get_download_url_requests jira_get_download_url_uploads
        jira_download_file_requests jira_download_file_uploads
        jira_upload_to_s3_requests split: sum.split)

lemma jira_handler_no_site:
  assumes "environ w ''SITE_NAME'' = None"
  shows "http_requests (fst (jira_lambda_handler w event context)) = []"
    and "uploads (fst (jira_lambda_handler w event context)) = []"
  using assms
  by (simp_all add: jira_lambda_handler_def get_site_name_def getenv_def io_simps split: sum.split)

lemma jira_handler_no_credentials:
  assumes "snd (get_credentials w) = Inl e"
  shows "http_requests (fst (jira_lambda_handler w event context)) = []"
    and "uploads (fst (jira_lambda_handler w event context)) = []"
  using assms
  by (simp_all add: jira_lambda_handler_def io_simps)

lemma jira_transfer_needs_url:
  assumes "(\<exists>r \<in> set (http_requests (fst (jira_lambda_handler w event context))). stream r) \<or>
           uploads (fst (jira_lambda_handler w event context)) \<noteq> []"
  shows "\<exists>credentials site_name task_id u.
           snd (get_credentials w) = Inr credentials \<and> environ w ''SITE_NAME'' = Some site_name \<and>
           snd (jira_get_task_id w credentials site_name) = Inr task_id \<and>
           snd (jira_get_download_url w credentials site_name task_id) = Inr u"
proof (cases "snd (get_credentials w)")
  case (Inl e)
  with assms show ?thesis
    by (simp add: jira_handler_no_credentials)
next
  case (Inr credentials)
  show ?thesis
  proof (cases "environ w ''SITE_NAME''")
    case None
    with assms show ?thesis
      by (simp add: jira_handler_no_site)
  next
    case (Some site_name)
    show ?thesis
    proof (cases "snd (jira_get_task_id w credentials site_name)")
      case (Inl e)
      with assms show ?thesis
        by (simp add: jira_handler_parts [OF Inr Some] get_request_def)
    next
      case tid: (Inr task_id)
      show ?thesis
      proof (cases "snd (jira_get_download_url w credentials site_name task_id)")
        case (Inl e)
        with assms tid show ?thesis
          by (simp add: jira_handler_parts [OF Inr Some] get_request_def)
      next
        case u: (Inr u)
        with Inr Some tid show ?thesis by blast
      qed
    qed
  qed
qed

lemma jira_incomplete:
  assumes creds: "snd (get_credentials w) = Inr credentials"
      and site: "environ w ''SITE_NAME'' = Some site_name"
      and resp0: "http w (get_request (''https://'' @ site_name @ ''/rest/backup/1/export/lastTaskId'')
                    credentials False) = Inr r0"
      and ok0: "raise_for_status r0 = Inr ()"
      and resp: "http w (get_request (''https://'' @ site_name @
                   ''/rest/backup/1/export/getProgress?taskId='' @ resp_text r0) credentials False) = Inr r"
      and ok: "raise_for_status r = Inr ()"
      and body: "json r = Inr body"
      and status: "subscript body ''status'' = Inr status"
      and neq: "status \<noteq> PStr ''Success''"
  shows "snd (jira_lambda_handler w event context) = Inl BackupIncomplete"
    and "http_requests (fst (jira_lambda_handler w event context)) =
           [get_request (''https://'' @ site_name @ ''/rest/backup/1/export/lastTaskId'') credentials False,
            get_request (''https://'' @ site_name @ ''/rest/backup/1/export/getProgress?taskId='' @ resp_text r0)
              credentials False]"
    and "uploads (fst (jira_lambda_handler w event context)) = []"
proof -
  have tid: "snd (jira_get_task_id w credentials site_name) = Inr (resp_text r0)"
    by (rule jira_get_task_id_result [OF resp0 ok0])
  have "snd (jira_get_download_url w credentials site_name (resp_text r0)) = Inl BackupIncomplete"
    using jira_get_download_url_result [OF resp ok body status] neq by simp
  with tid show "snd (jira_lambda_handler w event context) = Inl BackupIncomplete"
    and "http_requests (fst (jira_lambda_handler w event context)) =
           [get_request (''https://'' @ site_name @ ''/rest/backup/1/export/lastTaskId'') credentials False,
            get_request (''https://'' @ site_name @ ''/rest/backup/1/export/getProgress?taskId='' @ resp_text r0)
              credentials False]"
    and "uploads (fst (jira_lambda_handler w event context)) = []"
    by (simp_all add: jira_handler_parts [OF creds site])
qed


subsection \<open>More on the example worlds\<close>

lemma example_world_simps:
  "environ (example_world secret_string site clock) = example_environ"
  "boto3_client (example_world secret_string site clock) service region = None"
  "http (example_world secret_string site clock) = site"
  "now (example_world secret_string site clock) = clock"
  "upload_fileobj (example_world secret_string site clock) bucket key body = None"
  by (simp_all add: example_world_def)

lemma example_snd_get_credentials:
  "snd (get_credentials (example_world example_secret_string site clock)) = Inr example_credentials"
  by (simp add: example_get_credentials)

lemma confluence_site_simps:
  "confluence_site status
     (get_request ''https://example.atlassian.net/wiki/rest/obm/1.0/getprogress.json'' credentials st) =
   Inr (ok_response [] (Inr (PDict [(''currentStatus'', PStr status), (''fileName'', PStr ''backup.zip'')])) [])"
  "confluence_site status
     (get_request ''https://example.atlassian.net/wiki/download/backup.zip'' credentials st) =
   Inr (ok_response [] (Inl (External ''JSONDecodeError'')) ''PK-confluence'')"
  by (simp_all add: confluence_site_def get_request_def)

lemma jira_site_simps:
  "jira_site status
     (get_request ''https://example.atlassian.net/rest/backup/1/export/lastTaskId'' credentials st) =
   Inr (ok_response ''42'' (Inr (PInt 42)) [])"
  "jira_site status
     (get_request ''https://example.atlassian.net/rest/backup/1/export/getProgress?taskId=42'' credentials st) =
   Inr (ok_response [] (Inr (PDict [(''status'', PStr status), (''result'', PStr ''export.zip'')])) [])"
  "jira_site status
     (get_request ''https://example.atlassian.net/plugins/servlet/export.zip'' credentials st) =
   Inr (ok_response [] (Inl (External ''JSONDecodeError'')) ''PK-jira'')"
  by (simp_all add: jira_site_def get_request_def)

lemma ok_response_simps:
  "raise_for_status (ok_response t j s) = Inr ()"
  "resp_text (ok_response t j s) = t"
  "json (ok_response t j s) = j"
  "raw (ok_response t j s) = s"
  by (simp_all add: ok_response_def raise_for_status_def)

subsection \<open>No transfer before success\<close>

text \<open>
  C1. In either download workflow, when the status response carries a status token other
  than the terminal-success literal (\<^verbatim>\<open>COMPLETE\<close> for Confluence, \<^verbatim>\<open>Success\<close> for
  Jira), the handler fails with \<^verbatim>\<open>BackupIncomplete\<close>, the only requests it has sent are
  the status request (after the task-id lookup, for Jira), and it has uploaded nothing.
  Conversely, in every run whose trace holds a streamed request (the download is the only
  request sent with \<^verbatim>\<open>stream=True\<close>) or an upload, the status response carried the
  success literal.
\<close>
theorem backup_incomplete_no_transfer:
  "(snd (get_credentials w) = Inr credentials \<and> environ w ''SITE_NAME'' = Some site_name \<and>
    http w (get_request (''https://'' @ site_name @ ''/wiki/rest/obm/1.0/getprogress.json'')
             credentials False) = Inr r \<and>
    raise_for_status r = Inr () \<and> json r = Inr body \<and>
    subscript body ''currentStatus'' = Inr status \<and> status \<noteq> PStr ''COMPLETE'' \<longrightarrow>
      snd (confluence_lambda_handler w event context) = Inl BackupIncomplete \<and>
      http_requests (fst (confluence_lambda_handler w event context)) =
        [get_request (''https://'' @ site_name @ ''/wiki/rest/obm/1.0/getprogress.json'')
           credentials False] \<and>
      uploads (fst (confluence_lambda_handler w event context)) = []) \<and>
   (snd (get_credentials w) = Inr credentials \<and> environ w ''SITE_NAME'' = Some site_name \<and>
    http w (get_request (''https://'' @ site_name @ ''/rest/backup/1/export/lastTaskId'')
             credentials False) = Inr r0 \<and>
    raise_for_status r0 = Inr () \<and>
    http w (get_request (''https://'' @ site_name @ ''/rest/backup/1/export/getProgress?taskId='' @
                         resp_text r0) credentials False) = Inr r \<and>
    raise_for_status r = Inr () \<and> json r = Inr body \<and>
    subscript body ''status'' = Inr status \<and> status \<noteq> PStr ''Success'' \<longrightarrow>
      snd (jira_lambda_handler w event context) = Inl BackupIncomplete \<and>
      http_requests (fst (jira_lambda_handler w event context)) =
        [get_request (''https://'' @ site_name @ ''/rest/backup/1/export/lastTaskId'') credentials False,
         get_request (''https://'' @ site_name @ ''/rest/backup/1/export/getProgress?taskId='' @
                      resp_text r0) credentials False] \<and>
      uploads (fst (jira_lambda_handler w event context)) = []) \<and>
   ((\<exists>q \<in> set (http_requests (fst (confluence_lambda_handler w event context))). stream q) \<or>
    uploads (fst (confluence_lambda_handler w event context)) \<noteq> [] \<longrightarrow>
      (\<exists>credentials site_name r body.
         snd (get_credentials w) = Inr credentials \<and> environ w ''SITE_NAME'' = Some site_name \<and>
         http w (get_request (''https://'' @ site_name @ ''/wiki/rest/obm/1.0/getprogress.json'')
                  credentials False) = Inr r \<and>
         raise_for_status r = Inr () \<and> json r = Inr body \<and>
         subscript body ''currentStatus'' = Inr (PStr ''COMPLETE''))) \<and>
   ((\<exists>q \<in> set (http_requests (fst (jira_lambda_handler w event context))). stream q) \<or>
    uploads (fst (jira_lambda_handler w event context)) \<noteq> [] \<longrightarrow>
      (\<exists>credentials site_name task_id r body.
         snd (get_credentials w) = Inr credentials \<and> environ w ''SITE_NAME'' = Some site_name \<and>
         http w (get_request (''https://'' @ site_name @ ''/rest/backup/1/export/getProgress?taskId='' @
                              task_id) credentials False) = Inr r \<and>
         raise_for_status r = Inr () \<and> json r = Inr body \<and>
         subscript body ''status'' = Inr (PStr ''Success'')))"
  (is "?confluence_incomplete \<and> ?jira_incomplete \<and> ?confluence_invariant \<and> ?jira_invariant")
proof -
  have c: ?confluence_incomplete
    by (intro impI, elim conjE, intro conjI) (rule confluence_incomplete; assumption)+
  have j: ?jira_incomplete
    by (intro impI, elim conjE, intro conjI) (rule jira_incomplete; assumption)+
  have ci: ?confluence_invariant
  proof
    assume a: "(\<exists>q \<in> set (http_requests (fst (confluence_lambda_handler w event context))). stream q) \<or>
      uploads (fst (confluence_lambda_handler w event context)) \<noteq> []"
    from confluence_transfer_needs_url [OF a] obtain credentials site_name u where
      "snd (get_credentials w) = Inr credentials" "environ w ''SITE_NAME'' = Some site_name"
      "snd (confluence_get_download_url w credentials site_name) = Inr u"
      by blast
    with confluence_get_download_url_Inr [of w credentials site_name u]
    show "\<exists>credentials site_name r body.
           snd (get_credentials w) = Inr credentials \<and> environ w ''SITE_NAME'' = Some site_name \<and>
           http w (get_request (''https://'' @ site_name @ ''/wiki/rest/obm/1.0/getprogress.json'')
                    credentials False) = Inr r \<and>
           raise_for_status r = Inr () \<and> json r = Inr body \<and>
           subscript body ''currentStatus'' = Inr (PStr ''COMPLETE'')"
      by blast
  qed
  have ji: ?jira_invariant
  proof
    assume a: "(\<exists>q \<in> set (http_requests (fst (jira_lambda_handler w event context))). stream q) \<or>
      uploads (fst (jira_lambda_handler w event context)) \<noteq> []"
    from jira_transfer_needs_url [OF a] obtain credentials site_name task_id u where
      "snd (get_credentials w) = Inr credentials" "environ w ''SITE_NAME'' = Some site_name"
      "snd (jira_get_download_url w credentials site_name task_id) = Inr u"
      by blast
    with jira_get_download_url_Inr [of w credentials site_name task_id u]
    show "\<exists>credentials site_name task_id r body.
           snd (get_credentials w) = Inr credentials \<and> environ w ''SITE_NAME'' = Some site_name \<and>
           http w (get_request (''https://'' @ site_name @ ''/rest/backup/1/export/getProgress?taskId='' @
                                task_id) credentials False) = Inr r \<and>
           raise_for_status r = Inr () \<and> json r = Inr body \<and>
           subscript body ''status'' = Inr (PStr ''Success'')"
      by blast
  qed
  show ?thesis
    by (intro conjI) (rule c, rule j, rule ci, rule ji)
qed


theorem backup_incomplete_no_transfer_witness:
  "snd (confluence_lambda_handler
          (example_world example_secret_string (confluence_site ''RUNNING'') (clock_030405 0)) PNone ()) =
     Inl BackupIncomplete \<and>
   http_requests (fst (confluence_lambda_handler
          (example_world example_secret_string (confluence_site ''RUNNING'') (clock_030405 0)) PNone ())) =
     [get_request ''https://example.atlassian.net/wiki/rest/obm/1.0/getprogress.json''
        example_credentials False] \<and>
   uploads (fst (confluence_lambda_handler
          (example_world example_secret_string (confluence_site ''RUNNING'') (clock_030405 0)) PNone ())) = [] \<and>
   snd (jira_lambda_handler
          (example_world example_secret_string (jira_site ''InProgress'') (clock_030405 0)) PNone ()) =
     Inl BackupIncomplete \<and>
   http_requests (fst (jira_lambda_handler
          (example_world example_secret_string (jira_site ''InProgress'') (clock_030405 0)) PNone ())) =
     [get_request ''https://example.atlassian.net/rest/backup/1/export/lastTaskId''
        example_credentials False,
      get_request ''https://example.atlassian.net/rest/backup/1/export/getProgress?taskId=42''
        example_credentials False] \<and>
   uploads (fst (jira_lambda_handler
          (example_world example_secret_string (jira_site ''InProgress'') (clock_030405 0)) PNone ())) = []"
proof -
  let ?wc = "example_world example_secret_string (confluence_site ''RUNNING'') (clock_030405 0)"
  let ?wj = "example_world example_secret_string (jira_site ''InProgress'') (clock_030405 0)"
  let ?rc = "ok_response [] (Inr (PDict [(''currentStatus'', PStr ''RUNNING''),
                                         (''fileName'', PStr ''backup.zip'')])) []"
  let ?r0 = "ok_response ''42'' (Inr (PInt 42)) []"
  let ?rj = "ok_response [] (Inr (PDict [(''status'', PStr ''InProgress''),
                                         (''result'', PStr ''export.zip'')])) []"
  have c: "snd (get_credentials ?wc) = Inr example_credentials
      \<and> environ ?wc ''SITE_NAME'' = Some ''example.atlassian.net''
      \<and> http ?wc (get_request (''https://'' @ ''example.atlassian.net'' @
            ''/wiki/rest/obm/1.0/getprogress.json'') example_credentials False) = Inr ?rc
      \<and> raise_for_status ?rc = Inr ()
      \<and> json ?rc = Inr (PDict [(''currentStatus'', PStr ''RUNNING''), (''fileName'', PStr ''backup.zip'')])
      \<and> subscript (PDict [(''currentStatus'', PStr ''RUNNING''), (''fileName'', PStr ''backup.zip'')])
            ''currentStatus'' = Inr (PStr ''RUNNING'')
      \<and> PStr ''RUNNING'' \<noteq> PStr ''COMPLETE''"
    by (simp add: example_snd_get_credentials example_world_simps example_environ_simps
          confluence_site_simps ok_response_simps)
  have j: "snd (get_credentials ?wj) = Inr example_credentials
      \<and> environ ?wj ''SITE_NAME'' = Some ''example.atlassian.net''
      \<and> http ?wj (get_request (''https://'' @ ''example.atlassian.net'' @
            ''/rest/backup/1/export/lastTaskId'') example_credentials False) = Inr ?r0
      \<and> raise_for_status ?r0 = Inr ()
      \<and> http ?wj (get_request (''https://'' @ ''example.atlassian.net'' @
            ''/rest/backup/1/export/getProgress?taskId='' @ resp_text ?r0) example_credentials False) = Inr ?rj
      \<and> raise_for_status ?rj = Inr ()
      \<and> json ?rj = Inr (PDict [(''status'', PStr ''InProgress''), (''result'', PStr ''export.zip'')])
      \<and> subscript (PDict [(''status'', PStr ''InProgress''), (''result'', PStr ''export.zip'')])
            ''status'' = Inr (PStr ''InProgress'')
      \<and> PStr ''InProgress'' \<noteq> PStr ''Success''"
    by (simp add: example_snd_get_credentials example_world_simps example_environ_simps
          jira_site_simps ok_response_simps)
  from backup_incomplete_no_transfer
         [of ?wc example_credentials "''example.atlassian.net''" ?rc
             "PDict [(''currentStatus'', PStr ''RUNNING''), (''fileName'', PStr ''backup.zip'')]"
             "PStr ''RUNNING''" PNone "()", THEN conjunct1, THEN mp, OF c]
       backup_incomplete_no_transfer
         [of ?wj example_credentials "''example.atlassian.net''" ?rj
             "PDict [(''status'', PStr ''InProgress''), (''result'', PStr ''export.zip'')]"
             "PStr ''InProgress''" PNone "()" ?r0, THEN conjunct2, THEN conjunct1, THEN mp, OF j]
  show ?thesis
    by (simp add: ok_response_simps)
qed


subsection \<open>The pollers\<close>

lemma confluence_get_download_url_trace_incomplete:
  assumes "http w (get_request (''https://'' @ site_name @ ''/wiki/rest/obm/1.0/getprogress.json'') credentials False) = Inr r"
      and "raise_for_status r = Inr ()"
      and "json r = Inr body"
      and "subscript body ''currentStatus'' = Inr status"
      and "status \<noteq> PStr ''COMPLETE''"
  shows "fst (confluence_get_download_url w credentials site_name) =
           [Print ''Querying status of the latest backup...'',
            Http (get_request (''https://'' @ site_name @ ''/wiki/rest/obm/1.0/getprogress.json'') credentials False),
            Print (''Task status: '' @ format_value w status)]"
  using assms
  by (simp add: confluence_get_download_url_def requests_get_def io_simps)

lemma jira_get_download_url_trace_incomplete:
  assumes "http w (get_request (''https://'' @ site_name @ ''/rest/backup/1/export/getProgress?taskId='' @ task_id) credentials False) = Inr r"
      and "raise_for_status r = Inr ()"
      and "json r = Inr body"
      and "subscript body ''status'' = Inr status"
      and "status \<noteq> PStr ''Success''"
  shows "fst (jira_get_download_url w credentials site_name task_id) =
           [Print (''Querying status of task ID '' @ task_id @ ''...''),
            Http (get_request (''https://'' @ site_name @ ''/rest/backup/1/export/getProgress?taskId='' @ task_id) credentials False),
            Print (''Task status: '' @ format_value w status)]"
  using assms
  by (simp add: jira_get_download_url_def requests_get_def io_simps)

lemma confluence_poll_iff:
  assumes "http w (get_request (''https://'' @ site_name @ ''/wiki/rest/obm/1.0/getprogress.json'') credentials False) = Inr r"
      and "raise_for_status r = Inr ()"
      and "json r = Inr body"
      and "subscript body ''currentStatus'' = Inr status"
  shows "(snd (confluence_get_download_url w credentials site_name) = Inl BackupIncomplete) =
           (status \<noteq> PStr ''COMPLETE'')"
  using confluence_get_download_url_result [OF assms]
  by (cases body) (auto simp add: BackupIncomplete_def split: option.splits)

lemma jira_poll_iff:
  assumes "http w (get_request (''https://'' @ site_name @ ''/rest/backup/1/export/getProgress?taskId='' @ task_id) credentials False) = Inr r"
      and "raise_for_status r = Inr ()"
      and "json r = Inr body"
      and "subscript body ''status'' = Inr status"
  shows "(snd (jira_get_download_url w credentials site_name task_id) = Inl BackupIncomplete) =
           (status \<noteq> PStr ''Success'')"
  using jira_get_download_url_result [OF assms]
  by (cases body) (auto simp add: BackupIncomplete_def split: option.splits)

text \<open>
  C3. Each poller compares the status field with its own literal, exactly and with case:
  given a status response that can be read, the poller raises \<^verbatim>\<open>BackupIncomplete\<close>
  if and only if the field differs from \<^verbatim>\<open>"COMPLETE"\<close> (Confluence) or from
  \<^verbatim>\<open>"Success"\<close> (Jira). When it raises, its whole trace is two log lines around one
  request; in every run it sends exactly one request, so there is no second poll and
  nothing between the check and the exception. Tokens that differ only in case, and the
  other variant's token, are different values.
\<close>
theorem poller_exact_token_single_shot:
  "(http w (get_request (''https://'' @ site_name @ ''/wiki/rest/obm/1.0/getprogress.json'')
             credentials False) = Inr r \<and>
    raise_for_status r = Inr () \<and> json r = Inr body \<and>
    subscript body ''currentStatus'' = Inr status \<longrightarrow>
      (snd (confluence_get_download_url w credentials site_name) = Inl BackupIncomplete) =
        (status \<noteq> PStr ''COMPLETE'') \<and>
      (status \<noteq> PStr ''COMPLETE'' \<longrightarrow>
         fst (confluence_get_download_url w credentials site_name) =
           [Print ''Querying status of the latest backup...'',
            Http (get_request (''https://'' @ site_name @ ''/wiki/rest/obm/1.0/getprogress.json'')
                    credentials False),
            Print (''Task status: '' @ format_value w status)])) \<and>
   http_requests (fst (confluence_get_download_url w credentials site_name)) =
     [get_request (''https://'' @ site_name @ ''/wiki/rest/obm/1.0/getprogress.json'') credentials False] \<and>
   (http w (get_request (''https://'' @ site_name @ ''/rest/backup/1/export/getProgress?taskId='' @
                         task_id) credentials False) = Inr r \<and>
    raise_for_status r = Inr () \<and> json r = Inr body \<and>
    subscript body ''status'' = Inr status \<longrightarrow>
      (snd (jira_get_download_url w credentials site_name task_id) = Inl BackupIncomplete) =
        (status \<noteq> PStr ''Success'') \<and>
      (status \<noteq> PStr ''Success'' \<longrightarrow>
         fst (jira_get_download_url w credentials site_name task_id) =
           [Print (''Querying status of task ID '' @ task_id @ ''...''),
            Http (get_request (''https://'' @ site_name @ ''/rest/backup/1/export/getProgress?taskId='' @
                               task_id) credentials False),
            Print (''Task status: '' @ format_value w status)])) \<and>
   http_requests (fst (jira_get_download_url w credentials site_name task_id)) =
     [get_request (''https://'' @ site_name @ ''/rest/backup/1/export/getProgress?taskId='' @ task_id)
        credentials False] \<and>
   PStr ''complete'' \<noteq> PStr ''COMPLETE'' \<and> PStr ''Complete'' \<noteq> PStr ''COMPLETE'' \<and>
   PStr ''Success'' \<noteq> PStr ''COMPLETE'' \<and> PStr ''success'' \<noteq> PStr ''Success'' \<and>
   PStr ''SUCCESS'' \<noteq> PStr ''Success'' \<and> PStr ''COMPLETE'' \<noteq> PStr ''Success''"
  (is "?confluence \<and> ?confluence_once \<and> ?jira \<and> ?jira_once \<and> ?tokens")
proof -
  have c: ?confluence
  proof (intro impI, elim conjE, intro conjI impI)
    assume a: "http w (get_request (''https://'' @ site_name @ ''/wiki/rest/obm/1.0/getprogress.json'')
             credentials False) = Inr r" "raise_for_status r = Inr ()" "json r = Inr body"
      "subscript body ''currentStatus'' = Inr status"
    show "(snd (confluence_get_download_url w credentials site_name) = Inl BackupIncomplete) =
        (status \<noteq> PStr ''COMPLETE'')"
      by (rule confluence_poll_iff [OF a])
    assume "status \<noteq> PStr ''COMPLETE''"
    then show "fst (confluence_get_download_url w credentials site_name) =
           [Print ''Querying status of the latest backup...'',
            Http (get_request (''https://'' @ site_name @ ''/wiki/rest/obm/1.0/getprogress.json'')
                    credentials False),
            Print (''Task status: '' @ format_value w status)]"
      by (rule confluence_get_download_url_trace_incomplete [OF a])
  qed
  have j: ?jira
  proof (intro impI, elim conjE, intro conjI impI)
    assume a: "http w (get_request (''https://'' @ site_name @ ''/rest/backup/1/export/getProgress?taskId='' @
                         task_id) credentials False) = Inr r" "raise_for_status r = Inr ()" "json r = Inr body"
      "subscript body ''status'' = Inr status"
    show "(snd (jira_get_download_url w credentials site_name task_id) = Inl BackupIncomplete) =
        (status \<noteq> PStr ''Success'')"
      by (rule jira_poll_iff [OF a])
    assume "status \<noteq> PStr ''Success''"
    then show "fst (jira_get_download_url w credentials site_name task_id) =
           [Print (''Querying status of task ID '' @ task_id @ ''...''),
            Http (get_request (''https://'' @ site_name @ ''/rest/backup/1/export/getProgress?taskId='' @
                               task_id) credentials False),
            Print (''Task status: '' @ format_value w status)]"
      by (rule jira_get_download_url_trace_incomplete [OF a])
  qed
  have t: ?tokens by simp
  show ?thesis
    by (intro conjI) (rule c, rule confluence_get_download_url_requests, rule j,
      rule jira_get_download_url_requests, insert t, simp_all)
qed


theorem poller_exact_token_single_shot_witness:
  "confluence_get_download_url
     (example_world example_secret_string (confluence_site ''Complete'') (clock_030405 0))
     example_credentials ''example.atlassian.net'' =
     ([Print ''Querying status of the latest backup...'',
       Http (get_request ''https://example.atlassian.net/wiki/rest/obm/1.0/getprogress.json''
               example_credentials False),
       Print ''Task status: Complete''],
      Inl BackupIncomplete) \<and>
   jira_get_download_url
     (example_world example_secret_string (jira_site ''SUCCESS'') (clock_030405 0))
     example_credentials ''example.atlassian.net'' ''42'' =
     ([Print ''Querying status of task ID 42...'',
       Http (get_request ''https://example.atlassian.net/rest/backup/1/export/getProgress?taskId=42''
               example_credentials False),
       Print ''Task status: SUCCESS''],
      Inl BackupIncomplete)"
proof -
  let ?wc = "example_world example_secret_string (confluence_site ''Complete'') (clock_030405 0)"
  let ?wj = "example_world example_secret_string (jira_site ''SUCCESS'') (clock_030405 0)"
  let ?bc = "PDict [(''currentStatus'', PStr ''Complete''), (''fileName'', PStr ''backup.zip'')]"
  let ?bj = "PDict [(''status'', PStr ''SUCCESS''), (''result'', PStr ''export.zip'')]"
  let ?rc = "ok_response [] (Inr ?bc) []"
  let ?rj = "ok_response [] (Inr ?bj) []"
  have c: "http ?wc (get_request (''https://'' @ ''example.atlassian.net'' @
            ''/wiki/rest/obm/1.0/getprogress.json'') example_credentials False) = Inr ?rc
      \<and> raise_for_status ?rc = Inr () \<and> json ?rc = Inr ?bc
      \<and> subscript ?bc ''currentStatus'' = Inr (PStr ''Complete'')"
    by (simp add: example_world_simps confluence_site_simps ok_response_simps)
  have j: "http ?wj (get_request (''https://'' @ ''example.atlassian.net'' @
            ''/rest/backup/1/export/getProgress?taskId='' @ ''42'') example_credentials False) = Inr ?rj
      \<and> raise_for_status ?rj = Inr () \<and> json ?rj = Inr ?bj
      \<and> subscript ?bj ''status'' = Inr (PStr ''SUCCESS'')"
    by (simp add: example_world_simps jira_site_simps ok_response_simps)
  from poller_exact_token_single_shot
         [of ?wc "''example.atlassian.net''" example_credentials ?rc ?bc "PStr ''Complete''",
          THEN conjunct1, THEN mp, OF c]
       poller_exact_token_single_shot
         [of ?wj "''example.atlassian.net''" example_credentials ?rj ?bj "PStr ''SUCCESS''" "''42''",
          THEN conjunct2, THEN conjunct2, THEN conjunct1, THEN mp, OF j]
  show ?thesis
    by (simp add: prod_eq_iff)
qed

subsection \<open>The download request\<close>

text \<open>
  C4. When the status response reports success and its locator field (\<^verbatim>\<open>fileName\<close> for
  Confluence, \<^verbatim>\<open>result\<close> for Jira) is the string \<open>locator\<close>, the poller returns that
  string unchanged and the download request, sent right after the status request, goes to
  \<^verbatim>\<open>https://\<close>, the site name, the variant's path prefix (\<^verbatim>\<open>/wiki/download/\<close> or
  \<^verbatim>\<open>/plugins/servlet/\<close>) and \<open>locator\<close>, concatenated.
\<close>
theorem download_url_from_locator:
  "(snd (get_credentials w) = Inr credentials \<and> environ w ''SITE_NAME'' = Some site_name \<and>
    http w (get_request (''https://'' @ site_name @ ''/wiki/rest/obm/1.0/getprogress.json'')
             credentials False) = Inr r \<and>
    raise_for_status r = Inr () \<and> json r = Inr body \<and>
    subscript body ''currentStatus'' = Inr (PStr ''COMPLETE'') \<and>
    subscript body ''fileName'' = Inr (PStr locator) \<longrightarrow>
      snd (confluence_get_download_url w credentials site_name) = Inr (PStr locator) \<and>
      http_requests (fst (confluence_lambda_handler w event context)) =
        [get_request (''https://'' @ site_name @ ''/wiki/rest/obm/1.0/getprogress.json'')
           credentials False,
         get_request (''https://'' @ site_name @ ''/wiki/download/'' @ locator) credentials True]) \<and>
   (snd (get_credentials w) = Inr credentials \<and> environ w ''SITE_NAME'' = Some site_name \<and>
    http w (get_request (''https://'' @ site_name @ ''/rest/backup/1/export/lastTaskId'')
             credentials False) = Inr r0 \<and>
    raise_for_status r0 = Inr () \<and>
    http w (get_request (''https://'' @ site_name @ ''/rest/backup/1/export/getProgress?taskId='' @
                         resp_text r0) credentials False) = Inr r \<and>
    raise_for_status r = Inr () \<and> json r = Inr body \<and>
    subscript body ''status'' = Inr (PStr ''Success'') \<and>
    subscript body ''result'' = Inr (PStr locator) \<longrightarrow>
      snd (jira_get_download_url w credentials site_name (resp_text r0)) = Inr (PStr locator) \<and>
      http_requests (fst (jira_lambda_handler w event context)) =
        [get_request (''https://'' @ site_name @ ''/rest/backup/1/export/lastTaskId'') credentials False,
         get_request (''https://'' @ site_name @ ''/rest/backup/1/export/getProgress?taskId='' @
                      resp_text r0) credentials False,
         get_request (''https://'' @ site_name @ ''/plugins/servlet/'' @ locator) credentials True])"
  (is "?confluence \<and> ?jira")
proof -
  have c: ?confluence
  proof (intro impI, elim conjE)
    assume creds: "snd (get_credentials w) = Inr credentials"
      and site: "environ w ''SITE_NAME'' = Some site_name"
      and a: "http w (get_request (''https://'' @ site_name @ ''/wiki/rest/obm/1.0/getprogress.json'')
             credentials False) = Inr r" "raise_for_status r = Inr ()" "json r = Inr body"
        "subscript body ''currentStatus'' = Inr (PStr ''COMPLETE'')"
      and loc: "subscript body ''fileName'' = Inr (PStr locator)"
    have u: "snd (confluence_get_download_url w credentials site_name) = Inr (PStr locator)"
      using confluence_get_download_url_result [OF a] loc by simp
    then show "snd (confluence_get_download_url w credentials site_name) = Inr (PStr locator) \<and>
      http_requests (fst (confluence_lambda_handler w event context)) =
        [get_request (''https://'' @ site_name @ ''/wiki/rest/obm/1.0/getprogress.json'')
           credentials False,
         get_request (''https://'' @ site_name @ ''/wiki/download/'' @ locator) credentials True]"
      by (simp add: confluence_handler_parts(1) [OF creds site])
  qed
  have j: ?jira
  proof (intro impI, elim conjE)
    assume creds: "snd (get_credentials w) = Inr credentials"
      and site: "environ w ''SITE_NAME'' = Some site_name"
      and a0: "http w (get_request (''https://'' @ site_name @ ''/rest/backup/1/export/lastTaskId'')
             credentials False) = Inr r0" "raise_for_status r0 = Inr ()"
      and a: "http w (get_request (''https://'' @ site_name @ ''/rest/backup/1/export/getProgress?taskId='' @
                         resp_text r0) credentials False) = Inr r" "raise_for_status r = Inr ()"
        "json r = Inr body" "subscript body ''status'' = Inr (PStr ''Success'')"
      and loc: "subscript body ''result'' = Inr (PStr locator)"
    have tid: "snd (jira_get_task_id w credentials site_name) = Inr (resp_text r0)"
      by (rule jira_get_task_id_result [OF a0])
    have u: "snd (jira_get_download_url w credentials site_name (resp_text r0)) = Inr (PStr locator)"
      using jira_get_download_url_result [OF a] loc by simp
    with tid show "snd (jira_get_download_url w credentials site_name (resp_text r0)) = Inr (PStr locator) \<and>
      http_requests (fst (jira_lambda_handler w event context)) =
        [get_request (''https://'' @ site_name @ ''/rest/backup/1/export/lastTaskId'') credentials False,
         get_request (''https://'' @ site_name @ ''/rest/backup/1/export/getProgress?taskId='' @
                      resp_text r0) credentials False,
         get_request (''https://'' @ site_name @ ''/plugins/servlet/'' @ locator) credentials True]"
      by (simp add: jira_handler_parts(1) [OF creds site])
  qed
  show ?thesis
    by (intro conjI) (rule c, rule j)
qed


theorem download_url_from_locator_witness:
  "http_requests (fst (confluence_lambda_handler
      (example_world example_secret_string (confluence_site ''COMPLETE'') (clock_030405 0)) PNone ())) =
     [get_request ''https://example.atlassian.net/wiki/rest/obm/1.0/getprogress.json''
        example_credentials False,
      get_request ''https://example.atlassian.net/wiki/download/backup.zip'' example_credentials True] \<and>
   http_requests (fst (jira_lambda_handler
      (example_world example_secret_string (jira_site ''Success'') (clock_030405 0)) PNone ())) =
     [get_request ''https://example.atlassian.net/rest/backup/1/export/lastTaskId''
        example_credentials False,
      get_request ''https://example.atlassian.net/rest/backup/1/export/getProgress?taskId=42''
        example_credentials False,
      get_request ''https://example.atlassian.net/plugins/servlet/export.zip'' example_credentials True]"
proof -
  let ?wc = "example_world example_secret_string (confluence_site ''COMPLETE'') (clock_030405 0)"
  let ?wj = "example_world example_secret_string (jira_site ''Success'') (clock_030405 0)"
  let ?bc = "PDict [(''currentStatus'', PStr ''COMPLETE''), (''fileName'', PStr ''backup.zip'')]"
  let ?bj = "PDict [(''status'', PStr ''Success''), (''result'', PStr ''export.zip'')]"
  let ?rc = "ok_response [] (Inr ?bc) []"
  let ?r0 = "ok_response ''42'' (Inr (PInt 42)) []"
  let ?rj = "ok_response [] (Inr ?bj) []"
  have c: "snd (get_credentials ?wc) = Inr example_credentials
      \<and> environ ?wc ''SITE_NAME'' = Some ''example.atlassian.net''
      \<and> http ?wc (get_request (''https://'' @ ''example.atlassian.net'' @
            ''/wiki/rest/obm/1.0/getprogress.json'') example_credentials False) = Inr ?rc
      \<and> raise_for_status ?rc = Inr () \<and> json ?rc = Inr ?bc
      \<and> subscript ?bc ''currentStatus'' = Inr (PStr ''COMPLETE'')
      \<and> subscript ?bc ''fileName'' = Inr (PStr ''backup.zip'')"
    by (simp add: example_snd_get_credentials example_world_simps example_environ_simps
          confluence_site_simps ok_response_simps)
  have j: "snd (get_credentials ?wj) = Inr example_credentials
      \<and> environ ?wj ''SITE_NAME'' = Some ''example.atlassian.net''
      \<and> http ?wj (get_request (''https://'' @ ''example.atlassian.net'' @
            ''/rest/backup/1/export/lastTaskId'') example_credentials False) = Inr ?r0
      \<and> raise_for_status ?r0 = Inr ()
      \<and> http ?wj (get_request (''https://'' @ ''example.atlassian.net'' @
            ''/rest/backup/1/export/getProgress?taskId='' @ resp_text ?r0) example_credentials False) = Inr ?rj
      \<and> raise_for_status ?rj = Inr () \<and> json ?rj = Inr ?bj
      \<and> subscript ?bj ''status'' = Inr (PStr ''Success'')
      \<and> subscript ?bj ''result'' = Inr (PStr ''export.zip'')"
    by (simp add: example_snd_get_credentials example_world_simps example_environ_simps
          jira_site_simps ok_response_simps)
  from download_url_from_locator
         [of ?wc example_credentials "''example.atlassian.net''" ?rc ?bc "''backup.zip''" PNone "()",
          THEN conjunct1, THEN mp, OF c]
       download_url_from_locator
         [of ?wj example_credentials "''example.atlassian.net''" ?rj ?bj "''export.zip''" PNone "()" ?r0,
          THEN conjunct2, THEN mp, OF j]
  show ?thesis
    by (simp add: ok_response_simps)
qed

subsection \<open>Runs that succeed\<close>

lemma jira_handler_success:
  assumes creds: "snd (get_credentials w) = Inr credentials"
      and site: "environ w ''SITE_NAME'' = Some site_name"
      and a0: "http w (get_request (''https://'' @ site_name @ ''/rest/backup/1/export/lastTaskId'')
                 credentials False) = Inr r0" "raise_for_status r0 = Inr ()"
      and a: "http w (get_request (''https://'' @ site_name @ ''/rest/backup/1/export/getProgress?taskId='' @
                 resp_text r0) credentials False) = Inr r1" "raise_for_status r1 = Inr ()"
             "json r1 = Inr body" "subscript body ''status'' = Inr (PStr ''Success'')"
      and loc: "subscript body ''result'' = Inr (PStr locator)"
      and d: "http w (get_request (''https://'' @ site_name @ ''/plugins/servlet/'' @ locator)
                 credentials True) = Inr r2" "raise_for_status r2 = Inr ()"
      and up: "boto3_client w ''s3'' None = None" "environ w ''S3_BUCKET_NAME'' = Some bucket"
              "upload_fileobj w bucket (''jira-backup-'' @ strftime (now w) @ ''.zip'') (raw r2) = None"
  shows "http_requests (fst (jira_lambda_handler w event context)) =
           [get_request (''https://'' @ site_name @ ''/rest/backup/1/export/lastTaskId'') credentials False,
            get_request (''https://'' @ site_name @ ''/rest/backup/1/export/getProgress?taskId='' @
                         resp_text r0) credentials False,
            get_request (''https://'' @ site_name @ ''/plugins/servlet/'' @ locator) credentials True]"
    and "uploads (fst (jira_lambda_handler w event context)) =
           [(bucket, ''jira-backup-'' @ strftime (now w) @ ''.zip'', raw r2)]"
    and "snd (jira_lambda_handler w event context) =
           Inr (PDict [(''status'', PStr ''success''),
                       (''filename'', PStr (''jira-backup-'' @ strftime (now w) @ ''.zip''))])"
proof -
  have tid: "snd (jira_get_task_id w credentials site_name) = Inr (resp_text r0)"
    by (rule jira_get_task_id_result [OF a0])
  have u: "snd (jira_get_download_url w credentials site_name (resp_text r0)) = Inr (PStr locator)"
    using jira_get_download_url_result [OF a] loc by simp
  have f: "snd (jira_download_file w credentials site_name (PStr locator)) = Inr (raw r2)"
    using jira_download_file_result [of w site_name "PStr locator" credentials r2] d by simp
  note s3 = jira_upload_to_s3_result [OF up]
  from tid u f s3
  show "http_requests (fst (jira_lambda_handler w event context)) =
           [get_request (''https://'' @ site_name @ ''/rest/backup/1/export/lastTaskId'') credentials False,
            get_request (''https://'' @ site_name @ ''/rest/backup/1/export/getProgress?taskId='' @
                         resp_text r0) credentials False,
            get_request (''https://'' @ site_name @ ''/plugins/servlet/'' @ locator) credentials True]"
    and "uploads (fst (jira_lambda_handler w event context)) =
           [(bucket, ''jira-backup-'' @ strftime (now w) @ ''.zip'', raw r2)]"
    and "snd (jira_lambda_handler w event context) =
           Inr (PDict [(''status'', PStr ''success''),
                       (''filename'', PStr (''jira-backup-'' @ strftime (now w) @ ''.zip''))])"
    by (simp_all add: jira_handler_parts [OF creds site])
qed

lemma confluence_handler_success:
  assumes creds: "snd (get_credentials w) = Inr credentials"
      and site: "environ w ''SITE_NAME'' = Some site_name"
      and a: "http w (get_request (''https://'' @ site_name @ ''/wiki/rest/obm/1.0/getprogress.json'')
                 credentials False) = Inr r1" "raise_for_status r1 = Inr ()"
             "json r1 = Inr body" "subscript body ''currentStatus'' = Inr (PStr ''COMPLETE'')"
      and loc: "subscript body ''fileName'' = Inr (PStr locator)"
      and d: "http w (get_request (''https://'' @ site_name @ ''/wiki/download/'' @ locator)
                 credentials True) = Inr r2" "raise_for_status r2 = Inr ()"
      and up: "boto3_client w ''s3'' None = None" "environ w ''S3_BUCKET_NAME'' = Some bucket"
              "upload_fileobj w bucket (''confluence-backup-'' @ strftime (now w) @ ''.zip'') (raw r2) = None"
  shows "http_requests (fst (confluence_lambda_handler w event context)) =
           [get_request (''https://'' @ site_name @ ''/wiki/rest/obm/1.0/getprogress.json'') credentials False,
            get_request (''https://'' @ site_name @ ''/wiki/download/'' @ locator) credentials True]"
    and "uploads (fst (confluence_lambda_handler w event context)) =
           [(bucket, ''confluence-backup-'' @ strftime (now w) @ ''.zip'', raw r2)]"
    and "snd (confluence_lambda_handler w event context) =
           Inr (PDict [(''status'', PStr ''success''),
                       (''filename'', PStr (''confluence-backup-'' @ strftime (now w) @ ''.zip''))])"
proof -
  have u: "snd (confluence_get_download_url w credentials site_name) = Inr (PStr locator)"
    using confluence_get_download_url_result [OF a] loc by simp
  have f: "snd (confluence_download_file w credentials site_name (PStr locator)) = Inr (raw r2)"
    using confluence_download_file_result [of w site_name "PStr locator" credentials r2] d by simp
  note s3 = confluence_upload_to_s3_result [OF up]
  from u f s3
  show "http_requests (fst (confluence_lambda_handler w event context)) =
           [get_request (''https://'' @ site_name @ ''/wiki/rest/obm/1.0/getprogress.json'') credentials False,
            get_request (''https://'' @ site_name @ ''/wiki/download/'' @ locator) credentials True]"
    and "uploads (fst (confluence_lambda_handler w event context)) =
           [(bucket, ''confluence-backup-'' @ strftime (now w) @ ''.zip'', raw r2)]"
    and "snd (confluence_lambda_handler w event context) =
           Inr (PDict [(''status'', PStr ''success''),
                       (''filename'', PStr (''confluence-backup-'' @ strftime (now w) @ ''.zip''))])"
    by (simp_all add: confluence_handler_parts [OF creds site])
qed


subsection \<open>Runs in the example worlds\<close>

lemma example_confluence_run:
  "http_requests (fst (confluence_lambda_handler
      (example_world example_secret_string (confluence_site ''COMPLETE'') clock) event context)) =
     [get_request ''https://example.atlassian.net/wiki/rest/obm/1.0/getprogress.json''
        example_credentials False,
      get_request ''https://example.atlassian.net/wiki/download/backup.zip'' example_credentials True]"
  "uploads (fst (confluence_lambda_handler
      (example_world example_secret_string (confluence_site ''COMPLETE'') clock) event context)) =
     [(''backups'', ''confluence-backup-'' @ strftime clock @ ''.zip'', ''PK-confluence'')]"
  "snd (confluence_lambda_handler
      (example_world example_secret_string (confluence_site ''COMPLETE'') clock) event context) =
     Inr (PDict [(''status'', PStr ''success''),
                 (''filename'', PStr (''confluence-backup-'' @ strftime clock @ ''.zip''))])"
proof -
  let ?w = "example_world example_secret_string (confluence_site ''COMPLETE'') clock"
  let ?b = "PDict [(''currentStatus'', PStr ''COMPLETE''), (''fileName'', PStr ''backup.zip'')]"
  let ?r1 = "ok_response [] (Inr ?b) []"
  let ?r2 = "ok_response [] (Inl (External ''JSONDecodeError'')) ''PK-confluence''"
  have creds: "snd (get_credentials ?w) = Inr example_credentials"
    by (rule example_snd_get_credentials)
  have site: "environ ?w ''SITE_NAME'' = Some ''example.atlassian.net''"
    by (simp add: example_world_simps example_environ_simps)
  have a: "http ?w (get_request (''https://'' @ ''example.atlassian.net'' @
             ''/wiki/rest/obm/1.0/getprogress.json'') example_credentials False) = Inr ?r1"
      "raise_for_status ?r1 = Inr ()" "json ?r1 = Inr ?b"
      "subscript ?b ''currentStatus'' = Inr (PStr ''COMPLETE'')"
    by (simp_all add: example_world_simps confluence_site_simps ok_response_simps)
  have loc: "subscript ?b ''fileName'' = Inr (PStr ''backup.zip'')"
    by simp
  have d: "http ?w (get_request (''https://'' @ ''example.atlassian.net'' @ ''/wiki/download/'' @
             ''backup.zip'') example_credentials True) = Inr ?r2" "raise_for_status ?r2 = Inr ()"
    by (simp_all add: example_world_simps confluence_site_simps ok_response_simps)
  have up: "boto3_client ?w ''s3'' None = None" "environ ?w ''S3_BUCKET_NAME'' = Some ''backups''"
    "upload_fileobj ?w ''backups'' (''confluence-backup-'' @ strftime (now ?w) @ ''.zip'') (raw ?r2) = None"
    by (simp_all add: example_world_simps example_environ_simps)
  note run = confluence_handler_success [OF creds site a loc d up, of event "context"]
  from run(1) show "http_requests (fst (confluence_lambda_handler ?w event context)) =
     [get_request ''https://example.atlassian.net/wiki/rest/obm/1.0/getprogress.json''
        example_credentials False,
      get_request ''https://example.atlassian.net/wiki/download/backup.zip'' example_credentials True]"
    by simp
  from run(2) show "uploads (fst (confluence_lambda_handler ?w event context)) =
     [(''backups'', ''confluence-backup-'' @ strftime clock @ ''.zip'', ''PK-confluence'')]"
    by (simp add: example_world_simps ok_response_simps)
  from run(3) show "snd (confluence_lambda_handler ?w event context) =
     Inr (PDict [(''status'', PStr ''success''),
                 (''filename'', PStr (''confluence-backup-'' @ strftime clock @ ''.zip''))])"
    by (simp add: example_world_simps)
qed

lemma example_jira_run:
  "http_requests (fst (jira_lambda_handler
      (example_world example_secret_string (jira_site ''Success'') clock) event context)) =
     [get_request ''https://example.atlassian.net/rest/backup/1/export/lastTaskId''
        example_credentials False,
      get_request ''https://example.atlassian.net/rest/backup/1/export/getProgress?taskId=42''
        example_credentials False,
      get_request ''https://example.atlassian.net/plugins/servlet/export.zip'' example_credentials True]"
  "uploads (fst (jira_lambda_handler
      (example_world example_secret_string (jira_site ''Success'') clock) event context)) =
     [(''backups'', ''jira-backup-'' @ strftime clock @ ''.zip'', ''PK-jira'')]"
  "snd (jira_lambda_handler
      (example_world example_secret_string (jira_site ''Success'') clock) event context) =
     Inr (PDict [(''status'', PStr ''success''),
                 (''filename'', PStr (''jira-backup-'' @ strftime clock @ ''.zip''))])"
proof -
  let ?w = "example_world example_secret_string (jira_site ''Success'') clock"
  let ?b = "PDict [(''status'', PStr ''Success''), (''result'', PStr ''export.zip'')]"
  let ?r0 = "ok_response ''42'' (Inr (PInt 42)) []"
  let ?r1 = "ok_response [] (Inr ?b) []"
  let ?r2 = "ok_response [] (Inl (External ''JSONDecodeError'')) ''PK-jira''"
  have creds: "snd (get_credentials ?w) = Inr example_credentials"
    by (rule example_snd_get_credentials)
  have site: "environ ?w ''SITE_NAME'' = Some ''example.atlassian.net''"
    by (simp add: example_world_simps example_environ_simps)
  have a0: "http ?w (get_request (''https://'' @ ''example.atlassian.net'' @
             ''/rest/backup/1/export/lastTaskId'') example_credentials False) = Inr ?r0"
      "raise_for_status ?r0 = Inr ()"
    by (simp_all add: example_world_simps jira_site_simps ok_response_simps)
  have a: "http ?w (get_request (''https://'' @ ''example.atlassian.net'' @
             ''/rest/backup/1/export/getProgress?taskId='' @ resp_text ?r0) example_credentials False) = Inr ?r1"
      "raise_for_status ?r1 = Inr ()" "json ?r1 = Inr ?b"
      "subscript ?b ''status'' = Inr (PStr ''Success'')"
    by (simp_all add: example_world_simps jira_site_simps ok_response_simps)
  have loc: "subscript ?b ''result'' = Inr (PStr ''export.zip'')"
    by simp
  have d: "http ?w (get_request (''https://'' @ ''example.atlassian.net'' @ ''/plugins/servlet/'' @
             ''export.zip'') example_credentials True) = Inr ?r2" "raise_for_status ?r2 = Inr ()"
    by (simp_all add: example_world_simps jira_site_simps ok_response_simps)
  have up: "boto3_client ?w ''s3'' None = None" "environ ?w ''S3_BUCKET_NAME'' = Some ''backups''"
    "upload_fileobj ?w ''backups'' (''jira-backup-'' @ strftime (now ?w) @ ''.zip'') (raw ?r2) = None"
    by (simp_all add: example_world_simps example_environ_simps)
  note run = jira_handler_success [OF creds site a0 a loc d up, of event "context"]
  from run(1) show "http_requests (fst (jira_lambda_handler ?w event context)) =
     [get_request ''https://example.atlassian.net/rest/backup/1/export/lastTaskId''
        example_credentials False,
      get_request ''https://example.atlassian.net/rest/backup/1/export/getProgress?taskId=42''
        example_credentials False,
      get_request ''https://example.atlassian.net/plugins/servlet/export.zip'' example_credentials True]"
    by (simp add: ok_response_simps)
  from run(2) show "uploads (fst (jira_lambda_handler ?w event context)) =
     [(''backups'', ''jira-backup-'' @ strftime clock @ ''.zip'', ''PK-jira'')]"
    by (simp add: example_world_simps ok_response_simps)
  from run(3) show "snd (jira_lambda_handler ?w event context) =
     Inr (PDict [(''status'', PStr ''success''),
                 (''filename'', PStr (''jira-backup-'' @ strftime clock @ ''.zip''))])"
    by (simp add: example_world_simps)
qed

lemma strftime_clock_030405: "strftime (clock_030405 us) = ''2025-01-02T03-04-05Z''"
  by (rule strftime_example) (simp_all add: clock_030405_def)


subsection \<open>The Jira scenario\<close>

text \<open>
  C5. In the Jira download, let the last-task-id endpoint answer with the text \<^verbatim>\<open>42\<close> and
  the progress endpoint for \<^verbatim>\<open>taskId=42\<close> answer with status \<^verbatim>\<open>Success\<close> and result
  \<^verbatim>\<open>export.zip\<close>. The task id is the response text as it is, and the poller puts the
  task id it is given at the end of the progress URL unchanged. The handler then sends
  three requests: the lookup, the progress request for 42 and a streamed download from
  \<^verbatim>\<open>/plugins/servlet/export.zip\<close> on the site. When that download answers, the bucket is
  configured and the upload goes through, the handler uploads the downloaded stream as
  \<^verbatim>\<open>jira-backup-<timestamp>.zip\<close> and returns status \<^verbatim>\<open>success\<close> with that filename.
\<close>
theorem jira_end_to_end_task_42:
  assumes creds: "snd (get_credentials w) = Inr credentials"
      and site: "environ w ''SITE_NAME'' = Some site_name"
      and lookup: "http w (get_request (''https://'' @ site_name @ ''/rest/backup/1/export/lastTaskId'')
                     credentials False) = Inr r0"
      and lookup_ok: "raise_for_status r0 = Inr ()"
      and task: "resp_text r0 = ''42''"
      and progress: "http w (get_request (''https://'' @ site_name @
                       ''/rest/backup/1/export/getProgress?taskId=42'') credentials False) = Inr r1"
      and progress_ok: "raise_for_status r1 = Inr ()"
      and body: "json r1 = Inr (PDict [(''status'', PStr ''Success''), (''result'', PStr ''export.zip'')])"
  shows "snd (jira_get_task_id w credentials site_name) = Inr (resp_text r0) \<and>
         http_requests (fst (jira_get_download_url w credentials site_name task_id)) =
           [get_request (''https://'' @ site_name @ ''/rest/backup/1/export/getProgress?taskId='' @ task_id)
              credentials False] \<and>
         http_requests (fst (jira_lambda_handler w event context)) =
           [get_request (''https://'' @ site_name @ ''/rest/backup/1/export/lastTaskId'') credentials False,
            get_request (''https://'' @ site_name @ ''/rest/backup/1/export/getProgress?taskId=42'')
              credentials False,
            get_request (''https://'' @ site_name @ ''/plugins/servlet/export.zip'') credentials True] \<and>
         (http w (get_request (''https://'' @ site_name @ ''/plugins/servlet/export.zip'')
                    credentials True) = Inr r2 \<and>
          raise_for_status r2 = Inr () \<and>
          boto3_client w ''s3'' None = None \<and> environ w ''S3_BUCKET_NAME'' = Some bucket \<and>
          upload_fileobj w bucket (''jira-backup-'' @ strftime (now w) @ ''.zip'') (raw r2) = None \<longrightarrow>
            uploads (fst (jira_lambda_handler w event context)) =
              [(bucket, ''jira-backup-'' @ strftime (now w) @ ''.zip'', raw r2)] \<and>
            snd (jira_lambda_handler w event context) =
              Inr (PDict [(''status'', PStr ''success''),
                          (''filename'', PStr (''jira-backup-'' @ strftime (now w) @ ''.zip''))]))"
proof -
  let ?b = "PDict [(''status'', PStr ''Success''), (''result'', PStr ''export.zip'')]"
  have tid: "snd (jira_get_task_id w credentials site_name) = Inr (resp_text r0)"
    by (rule jira_get_task_id_result [OF lookup lookup_ok])
  have a: "http w (get_request (''https://'' @ site_name @ ''/rest/backup/1/export/getProgress?taskId='' @
             resp_text r0) credentials False) = Inr r1"
    using progress task by simp
  have st: "subscript ?b ''status'' = Inr (PStr ''Success'')"
    and loc: "subscript ?b ''result'' = Inr (PStr ''export.zip'')"
    by simp_all
  have u: "snd (jira_get_download_url w credentials site_name (resp_text r0)) = Inr (PStr ''export.zip'')"
    using jira_get_download_url_result [OF a progress_ok body st] by simp
  have reqs: "http_requests (fst (jira_lambda_handler w event context)) =
           [get_request (''https://'' @ site_name @ ''/rest/backup/1/export/lastTaskId'') credentials False,
            get_request (''https://'' @ site_name @ ''/rest/backup/1/export/getProgress?taskId=42'')
              credentials False,
            get_request (''https://'' @ site_name @ ''/plugins/servlet/export.zip'') credentials True]"
    using tid u task by (simp add: jira_handler_parts(1) [OF creds site])
  have finish: "http w (get_request (''https://'' @ site_name @ ''/plugins/servlet/export.zip'')
                    credentials True) = Inr r2 \<and>
          raise_for_status r2 = Inr () \<and>
          boto3_client w ''s3'' None = None \<and> environ w ''S3_BUCKET_NAME'' = Some bucket \<and>
          upload_fileobj w bucket (''jira-backup-'' @ strftime (now w) @ ''.zip'') (raw r2) = None \<longrightarrow>
            uploads (fst (jira_lambda_handler w event context)) =
              [(bucket, ''jira-backup-'' @ strftime (now w) @ ''.zip'', raw r2)] \<and>
            snd (jira_lambda_handler w event context) =
              Inr (PDict [(''status'', PStr ''success''),
                          (''filename'', PStr (''jira-backup-'' @ strftime (now w) @ ''.zip''))])"
  proof (intro impI, elim conjE)
    assume d: "http w (get_request (''https://'' @ site_name @ ''/plugins/servlet/export.zip'')
                    credentials True) = Inr r2"
      and ok: "raise_for_status r2 = Inr ()"
      and up: "boto3_client w ''s3'' None = None" "environ w ''S3_BUCKET_NAME'' = Some bucket"
        "upload_fileobj w bucket (''jira-backup-'' @ strftime (now w) @ ''.zip'') (raw r2) = None"
    have d': "http w (get_request (''https://'' @ site_name @ ''/plugins/servlet/'' @ ''export.zip'')
                    credentials True) = Inr r2"
      using d by simp
    note run = jira_handler_success [OF creds site lookup lookup_ok a progress_ok body st loc d' ok up,
        of event "context"]
    from run(2) run(3)
    show "uploads (fst (jira_lambda_handler w event context)) =
              [(bucket, ''jira-backup-'' @ strftime (now w) @ ''.zip'', raw r2)] \<and>
            snd (jira_lambda_handler w event context) =
              Inr (PDict [(''status'', PStr ''success''),
                          (''filename'', PStr (''jira-backup-'' @ strftime (now w) @ ''.zip''))])"
      by simp
  qed
  show ?thesis
    by (intro conjI) (rule tid, rule jira_get_download_url_requests, rule reqs, rule finish)
qed

theorem jira_end_to_end_task_42_witness:
  "http_requests (fst (jira_lambda_handler
      (example_world example_secret_string (jira_site ''Success'') (clock_030405 0)) PNone ())) =
     [get_request ''https://example.atlassian.net/rest/backup/1/export/lastTaskId''
        example_credentials False,
      get_request ''https://example.atlassian.net/rest/backup/1/export/getProgress?taskId=42''
        example_credentials False,
      get_request ''https://example.atlassian.net/plugins/servlet/export.zip'' example_credentials True] \<and>
   uploads (fst (jira_lambda_handler
      (example_world example_secret_string (jira_site ''Success'') (clock_030405 0)) PNone ())) =
     [(''backups'', ''jira-backup-2025-01-02T03-04-05Z.zip'', ''PK-jira'')] \<and>
   snd (jira_lambda_handler
      (example_world example_secret_string (jira_site ''Success'') (clock_030405 0)) PNone ()) =
     Inr (PDict [(''status'', PStr ''success''),
                 (''filename'', PStr ''jira-backup-2025-01-02T03-04-05Z.zip'')])"
proof -
  let ?w = "example_world example_secret_string (jira_site ''Success'') (clock_030405 0)"
  let ?b = "PDict [(''status'', PStr ''Success''), (''result'', PStr ''export.zip'')]"
  let ?r0 = "ok_response ''42'' (Inr (PInt 42)) []"
  let ?r1 = "ok_response [] (Inr ?b) []"
  let ?r2 = "ok_response [] (Inl (External ''JSONDecodeError'')) ''PK-jira''"
  have creds: "snd (get_credentials ?w) = Inr example_credentials"
    by (rule example_snd_get_credentials)
  have site: "environ ?w ''SITE_NAME'' = Some ''example.atlassian.net''"
    by (simp add: example_world_simps example_environ_simps)
  have lookup: "http ?w (get_request (''https://'' @ ''example.atlassian.net'' @
             ''/rest/backup/1/export/lastTaskId'') example_credentials False) = Inr ?r0"
    and lookup_ok: "raise_for_status ?r0 = Inr ()" and task: "resp_text ?r0 = ''42''"
    by (simp_all add: example_world_simps jira_site_simps ok_response_simps)
  have progress: "http ?w (get_request (''https://'' @ ''example.atlassian.net'' @
             ''/rest/backup/1/export/getProgress?taskId=42'') example_credentials False) = Inr ?r1"
    and progress_ok: "raise_for_status ?r1 = Inr ()" and body: "json ?r1 = Inr ?b"
    by (simp_all add: example_world_simps jira_site_simps ok_response_simps)
  have rest: "http ?w (get_request (''https://'' @ ''example.atlassian.net'' @
                ''/plugins/servlet/export.zip'') example_credentials True) = Inr ?r2 \<and>
          raise_for_status ?r2 = Inr () \<and>
          boto3_client ?w ''s3'' None = None \<and> environ ?w ''S3_BUCKET_NAME'' = Some ''backups'' \<and>
          upload_fileobj ?w ''backups'' (''jira-backup-'' @ strftime (now ?w) @ ''.zip'') (raw ?r2) = None"
    by (simp add: example_world_simps example_environ_simps jira_site_simps ok_response_simps)
  note e2e = jira_end_to_end_task_42 [OF creds site lookup lookup_ok task progress progress_ok body,
      of "''42''" PNone "()" ?r2 "''backups''"]
  from e2e [THEN conjunct2, THEN conjunct2, THEN conjunct1]
       e2e [THEN conjunct2, THEN conjunct2, THEN conjunct2, THEN mp, OF rest]
  show ?thesis
    by (simp add: example_world_simps ok_response_simps strftime_clock_030405)
qed


lemma confluence_upload_to_s3_Inr_uploads:
  "snd (confluence_upload_to_s3 w backup_file) = Inr name \<Longrightarrow>
     map (fst \<circ> snd) (uploads (fst (confluence_upload_to_s3 w backup_file))) =
       [''confluence-backup-'' @ strftime (now w) @ ''.zip'']"
  by (auto simp add: confluence_upload_to_s3_def Let_def io_simps split: sum.splits)

lemma confluence_handler_upload_key:
  assumes "(b, k, s) \<in> set (uploads (fst (confluence_lambda_handler w event context)))"
  shows "k = ''confluence-backup-'' @ strftime (now w) @ ''.zip''"
proof (cases "snd (get_credentials w)")
  case (Inl e)
  with assms show ?thesis
    by (simp add: confluence_handler_no_credentials)
next
  case (Inr credentials)
  show ?thesis
  proof (cases "environ w ''SITE_NAME''")
    case None
    with assms show ?thesis
      by (simp add: confluence_handler_no_site)
  next
    case (Some site_name)
    from assms show ?thesis
      by (auto simp add: confluence_handler_parts(2) [OF Inr Some] split: sum.splits
            dest: confluence_upload_to_s3_uploads)
  qed
qed

lemma confluence_handler_Inr:
  assumes "snd (confluence_lambda_handler w event context) = Inr res"
  shows "res = PDict [(''status'', PStr ''success''),
                      (''filename'', PStr (''confluence-backup-'' @ strftime (now w) @ ''.zip''))]"
    and "map (fst \<circ> snd) (uploads (fst (confluence_lambda_handler w event context))) =
           [''confluence-backup-'' @ strftime (now w) @ ''.zip'']"
proof -
  from assms obtain credentials where creds: "snd (get_credentials w) = Inr credentials"
    by (cases "snd (get_credentials w)") (simp_all add: handlers_credentials_fail)
  from assms creds obtain site_name where site: "environ w ''SITE_NAME'' = Some site_name"
    by (cases "environ w ''SITE_NAME''")
       (simp_all add: confluence_lambda_handler_def get_site_name_def getenv_def io_simps)
  from assms
  show "res = PDict [(''status'', PStr ''success''),
                      (''filename'', PStr (''confluence-backup-'' @ strftime (now w) @ ''.zip''))]"
    by (auto simp add: confluence_handler_parts(3) [OF creds site] split: sum.splits
          dest: confluence_upload_to_s3_Inr)
  from assms
  show "map (fst \<circ> snd) (uploads (fst (confluence_lambda_handler w event context))) =
           [''confluence-backup-'' @ strftime (now w) @ ''.zip'']"
    by (auto simp add: confluence_handler_parts(2,3) [OF creds site] split: sum.splits
          dest: confluence_upload_to_s3_Inr_uploads)
qed

lemma jira_upload_to_s3_Inr_uploads:
  "snd (jira_upload_to_s3 w backup_file) = Inr name \<Longrightarrow>
     map (fst \<circ> snd) (uploads (fst (jira_upload_to_s3 w backup_file))) =
       [''jira-backup-'' @ strftime (now w) @ ''.zip'']"
  by (auto simp add: jira_upload_to_s3_def Let_def io_simps split: sum.splits)

lemma jira_handler_upload_key:
  assumes "(b, k, s) \<in> set (uploads (fst (jira_lambda_handler w event context)))"
  shows "k = ''jira-backup-'' @ strftime (now w) @ ''.zip''"
proof (cases "snd (get_credentials w)")
  case (Inl e)
  with assms show ?thesis
    by (simp add: jira_handler_no_credentials)
next
  case (Inr credentials)
  show ?thesis
  proof (cases "environ w ''SITE_NAME''")
    case None
    with assms show ?thesis
      by (simp add: jira_handler_no_site)
  next
    case (Some site_name)
    from assms show ?thesis
      by (auto simp add: jira_handler_parts(2) [OF Inr Some] split: sum.splits
            dest: jira_upload_to_s3_uploads)
  qed
qed

lemma jira_handler_Inr:
  assumes "snd (jira_lambda_handler w event context) = Inr res"
  shows "res = PDict [(''status'', PStr ''success''),
                      (''filename'', PStr (''jira-backup-'' @ strftime (now w) @ ''.zip''))]"
    and "map (fst \<circ> snd) (uploads (fst (jira_lambda_handler w event context))) =
           [''jira-backup-'' @ strftime (now w) @ ''.zip'']"
proof -
  from assms obtain credentials where creds: "snd (get_credentials w) = Inr credentials"
    by (cases "snd (get_credentials w)") (simp_all add: handlers_credentials_fail)
  from assms creds obtain site_name where site: "environ w ''SITE_NAME'' = Some site_name"
    by (cases "environ w ''SITE_NAME''")
       (simp_all add: jira_lambda_handler_def get_site_name_def getenv_def io_simps)
  from assms
  show "res = PDict [(''status'', PStr ''success''),
                      (''filename'', PStr (''jira-backup-'' @ strftime (now w) @ ''.zip''))]"
    by (auto simp add: jira_handler_parts(3) [OF creds site] split: sum.splits
          dest: jira_upload_to_s3_Inr)
  from assms
  show "map (fst \<circ> snd) (uploads (fst (jira_lambda_handler w event context))) =
           [''jira-backup-'' @ strftime (now w) @ ''.zip'']"
    by (auto simp add: jira_handler_parts(2,3) [OF creds site] split: sum.splits
          dest: jira_upload_to_s3_Inr_uploads)
qed


subsection \<open>Object names\<close>

lemma get_credentials_result:
  assumes "environ w ''CREDENTIALS_SECRET_REGION_NAME'' = Some region"
      and "boto3_client w ''secretsmanager'' (Some region) = None"
      and "environ w ''CREDENTIALS_SECRET_NAME'' = Some secret_id"
      and "get_secret_value w region secret_id = Inr response"
      and "subscript response ''SecretString'' = Inr (PStr secret_string)"
      and "json_loads w secret_string = Inr secret"
      and "subscript secret ''email'' = Inr email"
      and "subscript secret ''api_token'' = Inr api_token"
  shows "snd (get_credentials w) = Inr (email, api_token)"
  using assms
  by (simp add: get_credentials_def get_secret_def getenv_def guard_def io_simps)

lemma confluence_run_names:
  assumes "environ w ''CREDENTIALS_SECRET_REGION_NAME'' = Some region"
      and "boto3_client w ''secretsmanager'' (Some region) = None"
      and "environ w ''CREDENTIALS_SECRET_NAME'' = Some secret_id"
      and "get_secret_value w region secret_id = Inr response"
      and "subscript response ''SecretString'' = Inr (PStr secret_string)"
      and "json_loads w secret_string = Inr secret"
      and "subscript secret ''email'' = Inr email"
      and "subscript secret ''api_token'' = Inr api_token"
      and "environ w ''SITE_NAME'' = Some site_name"
      and "http w (get_request (''https://'' @ site_name @ ''/wiki/rest/obm/1.0/getprogress.json'') (email, api_token) False) = Inr r1"
      and "raise_for_status r1 = Inr ()"
      and "json r1 = Inr body"
      and "subscript body ''currentStatus'' = Inr (PStr ''COMPLETE'')"
      and "subscript body ''fileName'' = Inr (PStr locator)"
      and "http w (get_request (''https://'' @ site_name @ ''/wiki/download/'' @ locator) (email, api_token) True) = Inr r2"
      and "raise_for_status r2 = Inr ()"
      and "boto3_client w ''s3'' None = None"
      and "environ w ''S3_BUCKET_NAME'' = Some bucket"
      and "upload_fileobj w bucket (''confluence-backup-'' @ strftime (now w) @ ''.zip'') (raw r2) = None"
  shows "uploads (fst (confluence_lambda_handler w event context)) =
          [(bucket, ''confluence-backup-'' @ strftime (now w) @ ''.zip'', raw r2)] \<and>
        snd (confluence_lambda_handler w event context) =
          Inr (PDict [(''status'', PStr ''success''),
                      (''filename'', PStr (''confluence-backup-'' @ strftime (now w) @ ''.zip''))]) \<and>
        (year (now w) = 2025 \<and> month (now w) = 1 \<and> day (now w) = 2 \<and>
         hour (now w) = 3 \<and> minute (now w) = 4 \<and> second (now w) = 5 \<longrightarrow>
           uploads (fst (confluence_lambda_handler w event context)) =
             [(bucket, ''confluence-backup-2025-01-02T03-04-05Z.zip'', raw r2)] \<and>
           snd (confluence_lambda_handler w event context) =
             Inr (PDict [(''status'', PStr ''success''),
                         (''filename'', PStr ''confluence-backup-2025-01-02T03-04-05Z.zip'')]))"
proof -
  have creds: "snd (get_credentials w) = Inr (email, api_token)"
    by (rule get_credentials_result [OF assms(1-8)])
  note run = confluence_handler_success [OF creds assms(9-), of event "context"]
  have at: "year (now w) = 2025 \<and> month (now w) = 1 \<and> day (now w) = 2 \<and>
       hour (now w) = 3 \<and> minute (now w) = 4 \<and> second (now w) = 5 \<Longrightarrow>
      strftime (now w) = ''2025-01-02T03-04-05Z''"
    by (elim conjE) (rule strftime_example)
  from run(2) run(3) at show ?thesis
    by simp
qed

lemma jira_run_names:
  assumes "environ w ''CREDENTIALS_SECRET_REGION_NAME'' = Some region"
      and "boto3_client w ''secretsmanager'' (Some region) = None"
      and "environ w ''CREDENTIALS_SECRET_NAME'' = Some secret_id"
      and "get_secret_value w region secret_id = Inr response"
      and "subscript response ''SecretString'' = Inr (PStr secret_string)"
      and "json_loads w secret_string = Inr secret"
      and "subscript secret ''email'' = Inr email"
      and "subscript secret ''api_token'' = Inr api_token"
      and "environ w ''SITE_NAME'' = Some site_name"
      and "http w (get_request (''https://'' @ site_name @ ''/rest/backup/1/export/lastTaskId'') (email, api_token) False) = Inr r0"
      and "raise_for_status r0 = Inr ()"
      and "http w (get_request (''https://'' @ site_name @ ''/rest/backup/1/export/getProgress?taskId='' @ resp_text r0) (email, api_token) False) = Inr r1"
      and "raise_for_status r1 = Inr ()"
      and "json r1 = Inr body"
      and "subscript body ''status'' = Inr (PStr ''Success'')"
      and "subscript body ''result'' = Inr (PStr locator)"
      and "http w (get_request (''https://'' @ site_name @ ''/plugins/servlet/'' @ locator) (email, api_token) True) = Inr r2"
      and "raise_for_status r2 = Inr ()"
      and "boto3_client w ''s3'' None = None"
      and "environ w ''S3_BUCKET_NAME'' = Some bucket"
      and "upload_fileobj w bucket (''jira-backup-'' @ strftime (now w) @ ''.zip'') (raw r2) = None"
  shows "uploads (fst (jira_lambda_handler w event context)) =
          [(bucket, ''jira-backup-'' @ strftime (now w) @ ''.zip'', raw r2)] \<and>
        snd (jira_lambda_handler w event context) =
          Inr (PDict [(''status'', PStr ''success''),
                      (''filename'', PStr (''jira-backup-'' @ strftime (now w) @ ''.zip''))]) \<and>
        (year (now w) = 2025 \<and> month (now w) = 1 \<and> day (now w) = 2 \<and>
         hour (now w) = 3 \<and> minute (now w) = 4 \<and> second (now w) = 5 \<longrightarrow>
           uploads (fst (jira_lambda_handler w event context)) =
             [(bucket, ''jira-backup-2025-01-02T03-04-05Z.zip'', raw r2)] \<and>
           snd (jira_lambda_handler w event context) =
             Inr (PDict [(''status'', PStr ''success''),
                         (''filename'', PStr ''jira-backup-2025-01-02T03-04-05Z.zip'')]))"
proof -
  have creds: "snd (get_credentials w) = Inr (email, api_token)"
    by (rule get_credentials_result [OF assms(1-8)])
  note run = jira_handler_success [OF creds assms(9-), of event "context"]
  have at: "year (now w) = 2025 \<and> month (now w) = 1 \<and> day (now w) = 2 \<and>
       hour (now w) = 3 \<and> minute (now w) = 4 \<and> second (now w) = 5 \<Longrightarrow>
      strftime (now w) = ''2025-01-02T03-04-05Z''"
    by (elim conjE) (rule strftime_example)
  from run(2) run(3) at show ?thesis
    by simp
qed

lemma example_world_secret:
  "get_secret_value (example_world secret_string site clock) ''us-east-1''
     ''atlassian/backups/credentials'' =
   Inr (PDict [(''Name'', PStr ''atlassian/backups/credentials''),
               (''SecretString'', PStr secret_string)])"
  "json_loads (example_world secret_string site clock) example_secret_string =
   Inr (PDict [(''email'', PStr ''ops@example.com''), (''api_token'', PStr ''s3cr3t'')])"
  by (simp_all add: example_world_def)

text \<open>
  C2. The object name is a function of the clock reading and the variant: the variant's
  prefix, the reading formatted by \<^verbatim>\<open>strftime\<close> to the second, and \<^verbatim>\<open>.zip\<close>. Let
  the world let the workflow through: the secret resolves and has both fields, the site
  name is configured, the status response reports success with a string locator, the
  download answers without error, the bucket is configured and S3 accepts the object. Then
  the Confluence handler uploads exactly one object, named
  \<^verbatim>\<open>confluence-backup-\<close> + timestamp + \<^verbatim>\<open>.zip\<close>, and returns status \<^verbatim>\<open>success\<close> with
  that filename; when the UTC clock reads 2025-01-02 03:04:05 (any fraction of the
  second) the object and the filename are \<^verbatim>\<open>confluence-backup-2025-01-02T03-04-05Z.zip\<close>.
  The Jira handler does the same with \<^verbatim>\<open>jira-backup-\<close> and
  \<^verbatim>\<open>jira-backup-2025-01-02T03-04-05Z.zip\<close>. At that reading the timestamp is
  \<^verbatim>\<open>2025-01-02T03-04-05Z\<close>. In every run, whatever the world, each object uploaded and
  each result returned carries the name built from the clock reading.
\<close>

theorem object_name_at_clock_reading:
  "(environ w ''CREDENTIALS_SECRET_REGION_NAME'' = Some region \<and>
    boto3_client w ''secretsmanager'' (Some region) = None \<and>
    environ w ''CREDENTIALS_SECRET_NAME'' = Some secret_id \<and>
    get_secret_value w region secret_id = Inr response \<and>
    subscript response ''SecretString'' = Inr (PStr secret_string) \<and>
    json_loads w secret_string = Inr secret \<and>
    subscript secret ''email'' = Inr email \<and>
    subscript secret ''api_token'' = Inr api_token \<and>
    environ w ''SITE_NAME'' = Some site_name \<and>
    http w (get_request (''https://'' @ site_name @ ''/wiki/rest/obm/1.0/getprogress.json'')
             (email, api_token) False) = Inr status_resp \<and>
    raise_for_status status_resp = Inr () \<and> json status_resp = Inr body \<and>
    subscript body ''currentStatus'' = Inr (PStr ''COMPLETE'') \<and>
    subscript body ''fileName'' = Inr (PStr locator) \<and>
    http w (get_request (''https://'' @ site_name @ ''/wiki/download/'' @ locator)
             (email, api_token) True) = Inr backup_resp \<and>
    raise_for_status backup_resp = Inr () \<and>
    boto3_client w ''s3'' None = None \<and> environ w ''S3_BUCKET_NAME'' = Some bucket \<and>
    upload_fileobj w bucket (''confluence-backup-'' @ strftime (now w) @ ''.zip'') (raw backup_resp) = None \<longrightarrow>
      uploads (fst (confluence_lambda_handler w event context)) =
        [(bucket, ''confluence-backup-'' @ strftime (now w) @ ''.zip'', raw backup_resp)] \<and>
      snd (confluence_lambda_handler w event context) =
        Inr (PDict [(''status'', PStr ''success''),
                    (''filename'', PStr (''confluence-backup-'' @ strftime (now w) @ ''.zip''))]) \<and>
      (year (now w) = 2025 \<and> month (now w) = 1 \<and> day (now w) = 2 \<and>
       hour (now w) = 3 \<and> minute (now w) = 4 \<and> second (now w) = 5 \<longrightarrow>
         uploads (fst (confluence_lambda_handler w event context)) =
           [(bucket, ''confluence-backup-2025-01-02T03-04-05Z.zip'', raw backup_resp)] \<and>
         snd (confluence_lambda_handler w event context) =
           Inr (PDict [(''status'', PStr ''success''),
                       (''filename'', PStr ''confluence-backup-2025-01-02T03-04-05Z.zip'')]))) \<and>
   (environ w ''CREDENTIALS_SECRET_REGION_NAME'' = Some region \<and>
    boto3_client w ''secretsmanager'' (Some region) = None \<and>
    environ w ''CREDENTIALS_SECRET_NAME'' = Some secret_id \<and>
    get_secret_value w region secret_id = Inr response \<and>
    subscript response ''SecretString'' = Inr (PStr secret_string) \<and>
    json_loads w secret_string = Inr secret \<and>
    subscript secret ''email'' = Inr email \<and>
    subscript secret ''api_token'' = Inr api_token \<and>
    environ w ''SITE_NAME'' = Some site_name \<and>
    http w (get_request (''https://'' @ site_name @ ''/rest/backup/1/export/lastTaskId'')
             (email, api_token) False) = Inr task_resp \<and>
    raise_for_status task_resp = Inr () \<and>
    http w (get_request (''https://'' @ site_name @ ''/rest/backup/1/export/getProgress?taskId='' @
                         resp_text task_resp) (email, api_token) False) = Inr status_resp \<and>
    raise_for_status status_resp = Inr () \<and> json status_resp = Inr body \<and>
    subscript body ''status'' = Inr (PStr ''Success'') \<and>
    subscript body ''result'' = Inr (PStr locator) \<and>
    http w (get_request (''https://'' @ site_name @ ''/plugins/servlet/'' @ locator)
             (email, api_token) True) = Inr backup_resp \<and>
    raise_for_status backup_resp = Inr () \<and>
    boto3_client w ''s3'' None = None \<and> environ w ''S3_BUCKET_NAME'' = Some bucket \<and>
    upload_fileobj w bucket (''jira-backup-'' @ strftime (now w) @ ''.zip'') (raw backup_resp) = None \<longrightarrow>
      uploads (fst (jira_lambda_handler w event context)) =
        [(bucket, ''jira-backup-'' @ strftime (now w) @ ''.zip'', raw backup_resp)] \<and>
      snd (jira_lambda_handler w event context) =
        Inr (PDict [(''status'', PStr ''success''),
                    (''filename'', PStr (''jira-backup-'' @ strftime (now w) @ ''.zip''))]) \<and>
      (year (now w) = 2025 \<and> month (now w) = 1 \<and> day (now w) = 2 \<and>
       hour (now w) = 3 \<and> minute (now w) = 4 \<and> second (now w) = 5 \<longrightarrow>
         uploads (fst (jira_lambda_handler w event context)) =
           [(bucket, ''jira-backup-2025-01-02T03-04-05Z.zip'', raw backup_resp)] \<and>
         snd (jira_lambda_handler w event context) =
           Inr (PDict [(''status'', PStr ''success''),
                       (''filename'', PStr ''jira-backup-2025-01-02T03-04-05Z.zip'')]))) \<and>
   (year (now w) = 2025 \<and> month (now w) = 1 \<and> day (now w) = 2 \<and>
    hour (now w) = 3 \<and> minute (now w) = 4 \<and> second (now w) = 5 \<longrightarrow>
      strftime (now w) = ''2025-01-02T03-04-05Z'') \<and>
   ((b, k, s) \<in> set (uploads (fst (confluence_lambda_handler w event context))) \<longrightarrow>
      k = ''confluence-backup-'' @ strftime (now w) @ ''.zip'') \<and>
   (snd (confluence_lambda_handler w event context) = Inr res \<longrightarrow>
      res = PDict [(''status'', PStr ''success''),
                   (''filename'', PStr (''confluence-backup-'' @ strftime (now w) @ ''.zip''))]) \<and>
   ((b, k, s) \<in> set (uploads (fst (jira_lambda_handler w event context))) \<longrightarrow>
      k = ''jira-backup-'' @ strftime (now w) @ ''.zip'') \<and>
   (snd (jira_lambda_handler w event context) = Inr res \<longrightarrow>
      res = PDict [(''status'', PStr ''success''),
                   (''filename'', PStr (''jira-backup-'' @ strftime (now w) @ ''.zip''))])"
  (is "?confluence \<and> ?jira \<and> ?reading \<and> ?confluence_key \<and> ?confluence_result \<and> ?jira_key \<and>
       ?jira_result")
proof -
  have c: ?confluence
    by (intro impI, elim conjE) (rule confluence_run_names; assumption)
  have j: ?jira
    by (intro impI, elim conjE) (rule jira_run_names; assumption)
  have t: ?reading
    by (intro impI, elim conjE) (rule strftime_example)
  have ck: ?confluence_key
    by (intro impI) (rule confluence_handler_upload_key)
  have cr: ?confluence_result
    by (intro impI) (rule confluence_handler_Inr(1))
  have jk: ?jira_key
    by (intro impI) (rule jira_handler_upload_key)
  have jr: ?jira_result
    by (intro impI) (rule jira_handler_Inr(1))
  show ?thesis
    by (intro conjI) (rule c, rule j, rule t, rule ck, rule cr, rule jk, rule jr)
qed

theorem object_name_at_clock_reading_witness:
  "uploads (fst (confluence_lambda_handler
      (example_world example_secret_string (confluence_site ''COMPLETE'') (clock_030405 0)) PNone ())) =
     [(''backups'', ''confluence-backup-2025-01-02T03-04-05Z.zip'', ''PK-confluence'')] \<and>
   snd (confluence_lambda_handler
      (example_world example_secret_string (confluence_site ''COMPLETE'') (clock_030405 0)) PNone ()) =
     Inr (PDict [(''status'', PStr ''success''),
                 (''filename'', PStr ''confluence-backup-2025-01-02T03-04-05Z.zip'')]) \<and>
   uploads (fst (jira_lambda_handler
      (example_world example_secret_string (jira_site ''Success'') (clock_030405 0)) PNone ())) =
     [(''backups'', ''jira-backup-2025-01-02T03-04-05Z.zip'', ''PK-jira'')] \<and>
   snd (jira_lambda_handler
      (example_world example_secret_string (jira_site ''Success'') (clock_030405 0)) PNone ()) =
     Inr (PDict [(''status'', PStr ''success''),
                 (''filename'', PStr ''jira-backup-2025-01-02T03-04-05Z.zip'')])"
proof -
  let ?wc = "example_world example_secret_string (confluence_site ''COMPLETE'') (clock_030405 0)"
  let ?wj = "example_world example_secret_string (jira_site ''Success'') (clock_030405 0)"
  let ?response = "PDict [(''Name'', PStr ''atlassian/backups/credentials''),
                          (''SecretString'', PStr example_secret_string)]"
  let ?secret = "PDict [(''email'', PStr ''ops@example.com''), (''api_token'', PStr ''s3cr3t'')]"
  let ?bc = "PDict [(''currentStatus'', PStr ''COMPLETE''), (''fileName'', PStr ''backup.zip'')]"
  let ?bj = "PDict [(''status'', PStr ''Success''), (''result'', PStr ''export.zip'')]"
  let ?task_resp = "ok_response ''42'' (Inr (PInt 42)) []"
  let ?rc1 = "ok_response [] (Inr ?bc) []"
  let ?rj1 = "ok_response [] (Inr ?bj) []"
  let ?rc2 = "ok_response [] (Inl (External ''JSONDecodeError'')) ''PK-confluence''"
  let ?rj2 = "ok_response [] (Inl (External ''JSONDecodeError'')) ''PK-jira''"
  have c: "environ ?wc ''CREDENTIALS_SECRET_REGION_NAME'' = Some ''us-east-1'' \<and>
    boto3_client ?wc ''secretsmanager'' (Some ''us-east-1'') = None \<and>
    environ ?wc ''CREDENTIALS_SECRET_NAME'' = Some ''atlassian/backups/credentials'' \<and>
    get_secret_value ?wc ''us-east-1'' ''atlassian/backups/credentials'' = Inr ?response \<and>
    subscript ?response ''SecretString'' = Inr (PStr example_secret_string) \<and>
    json_loads ?wc example_secret_string = Inr ?secret \<and>
    subscript ?secret ''email'' = Inr (PStr ''ops@example.com'') \<and>
    subscript ?secret ''api_token'' = Inr (PStr ''s3cr3t'') \<and>
    environ ?wc ''SITE_NAME'' = Some ''example.atlassian.net'' \<and>
    http ?wc (get_request (''https://'' @ ''example.atlassian.net'' @
                ''/wiki/rest/obm/1.0/getprogress.json'') (PStr ''ops@example.com'', PStr ''s3cr3t'')
             False) = Inr ?rc1 \<and>
    raise_for_status ?rc1 = Inr () \<and> json ?rc1 = Inr ?bc \<and>
    subscript ?bc ''currentStatus'' = Inr (PStr ''COMPLETE'') \<and>
    subscript ?bc ''fileName'' = Inr (PStr ''backup.zip'') \<and>
    http ?wc (get_request (''https://'' @ ''example.atlassian.net'' @ ''/wiki/download/'' @
                ''backup.zip'') (PStr ''ops@example.com'', PStr ''s3cr3t'') True) = Inr ?rc2 \<and>
    raise_for_status ?rc2 = Inr () \<and>
    boto3_client ?wc ''s3'' None = None \<and> environ ?wc ''S3_BUCKET_NAME'' = Some ''backups'' \<and>
    upload_fileobj ?wc ''backups'' (''confluence-backup-'' @ strftime (now ?wc) @ ''.zip'')
      (raw ?rc2) = None"
    by (simp add: example_world_simps example_world_secret example_environ_simps
          confluence_site_simps ok_response_simps)
  have j: "environ ?wj ''CREDENTIALS_SECRET_REGION_NAME'' = Some ''us-east-1'' \<and>
    boto3_client ?wj ''secretsmanager'' (Some ''us-east-1'') = None \<and>
    environ ?wj ''CREDENTIALS_SECRET_NAME'' = Some ''atlassian/backups/credentials'' \<and>
    get_secret_value ?wj ''us-east-1'' ''atlassian/backups/credentials'' = Inr ?response \<and>
    subscript ?response ''SecretString'' = Inr (PStr example_secret_string) \<and>
    json_loads ?wj example_secret_string = Inr ?secret \<and>
    subscript ?secret ''email'' = Inr (PStr ''ops@example.com'') \<and>
    subscript ?secret ''api_token'' = Inr (PStr ''s3cr3t'') \<and>
    environ ?wj ''SITE_NAME'' = Some ''example.atlassian.net'' \<and>
    http ?wj (get_request (''https://'' @ ''example.atlassian.net'' @
                ''/rest/backup/1/export/lastTaskId'') (PStr ''ops@example.com'', PStr ''s3cr3t'')
             False) = Inr ?task_resp \<and>
    raise_for_status ?task_resp = Inr () \<and>
    http ?wj (get_request (''https://'' @ ''example.atlassian.net'' @
                ''/rest/backup/1/export/getProgress?taskId='' @ resp_text ?task_resp)
                (PStr ''ops@example.com'', PStr ''s3cr3t'') False) = Inr ?rj1 \<and>
    raise_for_status ?rj1 = Inr () \<and> json ?rj1 = Inr ?bj \<and>
    subscript ?bj ''status'' = Inr (PStr ''Success'') \<and>
    subscript ?bj ''result'' = Inr (PStr ''export.zip'') \<and>
    http ?wj (get_request (''https://'' @ ''example.atlassian.net'' @ ''/plugins/servlet/'' @
                ''export.zip'') (PStr ''ops@example.com'', PStr ''s3cr3t'') True) = Inr ?rj2 \<and>
    raise_for_status ?rj2 = Inr () \<and>
    boto3_client ?wj ''s3'' None = None \<and> environ ?wj ''S3_BUCKET_NAME'' = Some ''backups'' \<and>
    upload_fileobj ?wj ''backups'' (''jira-backup-'' @ strftime (now ?wj) @ ''.zip'')
      (raw ?rj2) = None"
    by (simp add: example_world_simps example_world_secret example_environ_simps
          jira_site_simps ok_response_simps)
  have rc: "year (now ?wc) = 2025 \<and> month (now ?wc) = 1 \<and> day (now ?wc) = 2 \<and>
       hour (now ?wc) = 3 \<and> minute (now ?wc) = 4 \<and> second (now ?wc) = 5"
    by (simp add: example_world_simps clock_030405_def)
  have rj: "year (now ?wj) = 2025 \<and> month (now ?wj) = 1 \<and> day (now ?wj) = 2 \<and>
       hour (now ?wj) = 3 \<and> minute (now ?wj) = 4 \<and> second (now ?wj) = 5"
    by (simp add: example_world_simps clock_030405_def)
  note tc = object_name_at_clock_reading
      [where w = ?wc and region = "''us-east-1''" and secret_id = "''atlassian/backups/credentials''"
         and response = ?response and secret_string = example_secret_string and secret = ?secret
         and email = "PStr ''ops@example.com''" and api_token = "PStr ''s3cr3t''"
         and site_name = "''example.atlassian.net''" and status_resp = ?rc1 and body = ?bc
         and locator = "''backup.zip''" and backup_resp = ?rc2 and bucket = "''backups''"
         and event = PNone,
       THEN conjunct1, THEN mp, OF c, THEN conjunct2, THEN conjunct2, THEN mp, OF rc, of "()"]
  note tj = object_name_at_clock_reading
      [where w = ?wj and region = "''us-east-1''" and secret_id = "''atlassian/backups/credentials''"
         and response = ?response and secret_string = example_secret_string and secret = ?secret
         and email = "PStr ''ops@example.com''" and api_token = "PStr ''s3cr3t''"
         and site_name = "''example.atlassian.net''" and status_resp = ?rj1 and body = ?bj
         and locator = "''export.zip''" and backup_resp = ?rj2 and bucket = "''backups''"
         and event = PNone and task_resp = ?task_resp,
       THEN conjunct2, THEN conjunct1, THEN mp, OF j, THEN conjunct2, THEN conjunct2, THEN mp, OF rj,
       of "()"]
  from tc tj show ?thesis
    by (simp add: ok_response_simps)
qed


subsection \<open>Names of two invocations\<close>

lemma strftime_eq_iff:
  assumes "clock_reading a" and "clock_reading b"
  shows "(strftime a = strftime b) =
           (year a = year b \<and> month a = month b \<and> day a = day b \<and>
            hour a = hour b \<and> minute a = minute b \<and> second a = second b)"
  using strftime_inj [OF assms] strftime_cong [of a b] by blast

lemma confluence_names_by_second:
  assumes ra: "clock_reading (now w1)" and rb: "clock_reading (now w2)"
      and h1: "snd (confluence_lambda_handler w1 event1 context1) = Inr res1"
      and h2: "snd (confluence_lambda_handler w2 event2 context2) = Inr res2"
  shows "(res1 = res2) =
           (year (now w1) = year (now w2) \<and> month (now w1) = month (now w2) \<and>
            day (now w1) = day (now w2) \<and> hour (now w1) = hour (now w2) \<and>
            minute (now w1) = minute (now w2) \<and> second (now w1) = second (now w2))"
    and "(map (fst \<circ> snd) (uploads (fst (confluence_lambda_handler w1 event1 context1))) =
          map (fst \<circ> snd) (uploads (fst (confluence_lambda_handler w2 event2 context2)))) =
           (year (now w1) = year (now w2) \<and> month (now w1) = month (now w2) \<and>
            day (now w1) = day (now w2) \<and> hour (now w1) = hour (now w2) \<and>
            minute (now w1) = minute (now w2) \<and> second (now w1) = second (now w2))"
    and "length (uploads (fst (confluence_lambda_handler w1 event1 context1))) = 1"
    and "length (uploads (fst (confluence_lambda_handler w2 event2 context2))) = 1"
proof -
  note n1 = confluence_handler_Inr [OF h1] and n2 = confluence_handler_Inr [OF h2]
  show "(res1 = res2) =
           (year (now w1) = year (now w2) \<and> month (now w1) = month (now w2) \<and>
            day (now w1) = day (now w2) \<and> hour (now w1) = hour (now w2) \<and>
            minute (now w1) = minute (now w2) \<and> second (now w1) = second (now w2))"
    by (simp add: n1(1) n2(1) strftime_eq_iff [OF ra rb])
  show "(map (fst \<circ> snd) (uploads (fst (confluence_lambda_handler w1 event1 context1))) =
          map (fst \<circ> snd) (uploads (fst (confluence_lambda_handler w2 event2 context2)))) =
           (year (now w1) = year (now w2) \<and> month (now w1) = month (now w2) \<and>
            day (now w1) = day (now w2) \<and> hour (now w1) = hour (now w2) \<and>
            minute (now w1) = minute (now w2) \<and> second (now w1) = second (now w2))"
    by (simp add: n1(2) n2(2) strftime_eq_iff [OF ra rb])
  from n1(2) have "length (map (fst \<circ> snd) (uploads (fst (confluence_lambda_handler w1 event1 context1)))) = 1"
    by simp
  then show "length (uploads (fst (confluence_lambda_handler w1 event1 context1))) = 1"
    by simp
  from n2(2) have "length (map (fst \<circ> snd) (uploads (fst (confluence_lambda_handler w2 event2 context2)))) = 1"
    by simp
  then show "length (uploads (fst (confluence_lambda_handler w2 event2 context2))) = 1"
    by simp
qed


lemma jira_names_by_second:
  assumes ra: "clock_reading (now w1)" and rb: "clock_reading (now w2)"
      and h1: "snd (jira_lambda_handler w1 event1 context1) = Inr res1"
      and h2: "snd (jira_lambda_handler w2 event2 context2) = Inr res2"
  shows "(res1 = res2) =
           (year (now w1) = year (now w2) \<and> month (now w1) = month (now w2) \<and>
            day (now w1) = day (now w2) \<and> hour (now w1) = hour (now w2) \<and>
            minute (now w1) = minute (now w2) \<and> second (now w1) = second (now w2))"
    and "(map (fst \<circ> snd) (uploads (fst (jira_lambda_handler w1 event1 context1))) =
          map (fst \<circ> snd) (uploads (fst (jira_lambda_handler w2 event2 context2)))) =
           (year (now w1) = year (now w2) \<and> month (now w1) = month (now w2) \<and>
            day (now w1) = day (now w2) \<and> hour (now w1) = hour (now w2) \<and>
            minute (now w1) = minute (now w2) \<and> second (now w1) = second (now w2))"
    and "length (uploads (fst (jira_lambda_handler w1 event1 context1))) = 1"
    and "length (uploads (fst (jira_lambda_handler w2 event2 context2))) = 1"
proof -
  note n1 = jira_handler_Inr [OF h1] and n2 = jira_handler_Inr [OF h2]
  show "(res1 = res2) =
           (year (now w1) = year (now w2) \<and> month (now w1) = month (now w2) \<and>
            day (now w1) = day (now w2) \<and> hour (now w1) = hour (now w2) \<and>
            minute (now w1) = minute (now w2) \<and> second (now w1) = second (now w2))"
    by (simp add: n1(1) n2(1) strftime_eq_iff [OF ra rb])
  show "(map (fst \<circ> snd) (uploads (fst (jira_lambda_handler w1 event1 context1))) =
          map (fst \<circ> snd) (uploads (fst (jira_lambda_handler w2 event2 context2)))) =
           (year (now w1) = year (now w2) \<and> month (now w1) = month (now w2) \<and>
            day (now w1) = day (now w2) \<and> hour (now w1) = hour (now w2) \<and>
            minute (now w1) = minute (now w2) \<and> second (now w1) = second (now w2))"
    by (simp add: n1(2) n2(2) strftime_eq_iff [OF ra rb])
  from n1(2) have "length (map (fst \<circ> snd) (uploads (fst (jira_lambda_handler w1 event1 context1)))) = 1"
    by simp
  then show "length (uploads (fst (jira_lambda_handler w1 event1 context1))) = 1"
    by simp
  from n2(2) have "length (map (fst \<circ> snd) (uploads (fst (jira_lambda_handler w2 event2 context2)))) = 1"
    by simp
  then show "length (uploads (fst (jira_lambda_handler w2 event2 context2))) = 1"
    by simp
qed



text \<open>
  Two clock readings in the same second, 03:04:05.100000 and 03:04:05.900000, differ, yet
  against the same upstream success state both invocations return the same filename and
  upload under the same bucket and key, in the Confluence and in the Jira variant: the
  timestamp keeps whole seconds only.
\<close>
theorem same_second_same_name_counterexample:
  "now (example_world example_secret_string (confluence_site ''COMPLETE'') (clock_030405 100000)) \<noteq>
   now (example_world example_secret_string (confluence_site ''COMPLETE'') (clock_030405 900000)) \<and>
   snd (confluence_lambda_handler
      (example_world example_secret_string (confluence_site ''COMPLETE'') (clock_030405 100000)) PNone ()) =
     Inr (PDict [(''status'', PStr ''success''),
                 (''filename'', PStr ''confluence-backup-2025-01-02T03-04-05Z.zip'')]) \<and>
   snd (confluence_lambda_handler
      (example_world example_secret_string (confluence_site ''COMPLETE'') (clock_030405 900000)) PNone ()) =
     Inr (PDict [(''status'', PStr ''success''),
                 (''filename'', PStr ''confluence-backup-2025-01-02T03-04-05Z.zip'')]) \<and>
   uploads (fst (confluence_lambda_handler
      (example_world example_secret_string (confluence_site ''COMPLETE'') (clock_030405 100000)) PNone ())) =
     [(''backups'', ''confluence-backup-2025-01-02T03-04-05Z.zip'', ''PK-confluence'')] \<and>
   uploads (fst (confluence_lambda_handler
      (example_world example_secret_string (confluence_site ''COMPLETE'') (clock_030405 900000)) PNone ())) =
     [(''backups'', ''confluence-backup-2025-01-02T03-04-05Z.zip'', ''PK-confluence'')] \<and>
   now (example_world example_secret_string (jira_site ''Success'') (clock_030405 100000)) \<noteq>
   now (example_world example_secret_string (jira_site ''Success'') (clock_030405 900000)) \<and>
   uploads (fst (jira_lambda_handler
      (example_world example_secret_string (jira_site ''Success'') (clock_030405 100000)) PNone ())) =
     [(''backups'', ''jira-backup-2025-01-02T03-04-05Z.zip'', ''PK-jira'')] \<and>
   uploads (fst (jira_lambda_handler
      (example_world example_secret_string (jira_site ''Success'') (clock_030405 900000)) PNone ())) =
     [(''backups'', ''jira-backup-2025-01-02T03-04-05Z.zip'', ''PK-jira'')]"
proof -
  have differ: "clock_030405 100000 \<noteq> clock_030405 900000"
    by (simp add: clock_030405_def)
  then show ?thesis
    by (simp add: example_confluence_run example_jira_run strftime_clock_030405 example_world_simps)
qed

text \<open>
  C8. The download workflow is not idempotent, to the precision of the timestamp. Every
  invocation that returns a result has uploaded exactly one object, with no check for an
  earlier one; for two such invocations with clock readings in Python's range and a
  four-digit year, the returned results and the uploaded keys are equal exactly when the
  readings agree in year, month, day, hour, minute and second. Two readings that differ in
  any of these fields give two distinct names; two readings within the same second give
  the same name.
\<close>
theorem object_names_distinct_by_second:
  assumes "clock_reading (now w1)" and "clock_reading (now w2)"
  shows "(snd (confluence_lambda_handler w1 event1 context1) = Inr res1 \<and>
    snd (confluence_lambda_handler w2 event2 context2) = Inr res2 \<longrightarrow>
      (res1 = res2) =
         (year (now w1) = year (now w2) \<and> month (now w1) = month (now w2) \<and>
          day (now w1) = day (now w2) \<and> hour (now w1) = hour (now w2) \<and>
          minute (now w1) = minute (now w2) \<and> second (now w1) = second (now w2)) \<and>
      (map (fst \<circ> snd) (uploads (fst (confluence_lambda_handler w1 event1 context1))) =
       map (fst \<circ> snd) (uploads (fst (confluence_lambda_handler w2 event2 context2)))) =
         (year (now w1) = year (now w2) \<and> month (now w1) = month (now w2) \<and>
          day (now w1) = day (now w2) \<and> hour (now w1) = hour (now w2) \<and>
          minute (now w1) = minute (now w2) \<and> second (now w1) = second (now w2)) \<and>
      length (uploads (fst (confluence_lambda_handler w1 event1 context1))) = 1 \<and>
      length (uploads (fst (confluence_lambda_handler w2 event2 context2))) = 1) \<and>
   (snd (jira_lambda_handler w1 event1 context1) = Inr res1 \<and>
    snd (jira_lambda_handler w2 event2 context2) = Inr res2 \<longrightarrow>
      (res1 = res2) =
         (year (now w1) = year (now w2) \<and> month (now w1) = month (now w2) \<and>
          day (now w1) = day (now w2) \<and> hour (now w1) = hour (now w2) \<and>
          minute (now w1) = minute (now w2) \<and> second (now w1) = second (now w2)) \<and>
      (map (fst \<circ> snd) (uploads (fst (jira_lambda_handler w1 event1 context1))) =
       map (fst \<circ> snd) (uploads (fst (jira_lambda_handler w2 event2 context2)))) =
         (year (now w1) = year (now w2) \<and> month (now w1) = month (now w2) \<and>
          day (now w1) = day (now w2) \<and> hour (now w1) = hour (now w2) \<and>
          minute (now w1) = minute (now w2) \<and> second (now w1) = second (now w2)) \<and>
      length (uploads (fst (jira_lambda_handler w1 event1 context1))) = 1 \<and>
      length (uploads (fst (jira_lambda_handler w2 event2 context2))) = 1)"
  (is "?confluence \<and> ?jira")
proof -
  have c: ?confluence
    by (intro impI, elim conjE, intro conjI) (rule confluence_names_by_second [OF assms]; assumption)+
  have j: ?jira
    by (intro impI, elim conjE, intro conjI) (rule jira_names_by_second [OF assms]; assumption)+
  show ?thesis
    by (intro conjI) (rule c, rule j)
qed

theorem object_names_distinct_by_second_witness:
  "snd (confluence_lambda_handler
      (example_world example_secret_string (confluence_site ''COMPLETE'') (clock_030405 0)) PNone ()) \<noteq>
   snd (confluence_lambda_handler
      (example_world example_secret_string (confluence_site ''COMPLETE'')
         ((clock_030405 0)\<lparr>second := 6\<rparr>)) PNone ()) \<and>
   map (fst \<circ> snd) (uploads (fst (confluence_lambda_handler
      (example_world example_secret_string (confluence_site ''COMPLETE'') (clock_030405 0)) PNone ()))) \<noteq>
   map (fst \<circ> snd) (uploads (fst (confluence_lambda_handler
      (example_world example_secret_string (confluence_site ''COMPLETE'')
         ((clock_030405 0)\<lparr>second := 6\<rparr>)) PNone ()))) \<and>
   length (uploads (fst (confluence_lambda_handler
      (example_world example_secret_string (confluence_site ''COMPLETE'') (clock_030405 0)) PNone ()))) = 1 \<and>
   length (uploads (fst (confluence_lambda_handler
      (example_world example_secret_string (confluence_site ''COMPLETE'')
         ((clock_030405 0)\<lparr>second := 6\<rparr>)) PNone ()))) = 1"
proof -
  let ?c1 = "clock_030405 0"
  let ?c2 = "(clock_030405 0)\<lparr>second := 6\<rparr>"
  let ?w1 = "example_world example_secret_string (confluence_site ''COMPLETE'') ?c1"
  let ?w2 = "example_world example_secret_string (confluence_site ''COMPLETE'') ?c2"
  let ?res1 = "PDict [(''status'', PStr ''success''),
                      (''filename'', PStr (''confluence-backup-'' @ strftime ?c1 @ ''.zip''))]"
  let ?res2 = "PDict [(''status'', PStr ''success''),
                      (''filename'', PStr (''confluence-backup-'' @ strftime ?c2 @ ''.zip''))]"
  have r1: "clock_reading (now ?w1)" and r2: "clock_reading (now ?w2)"
    by (simp_all add: example_world_simps clock_030405_def clock_reading_def)
  have runs: "snd (confluence_lambda_handler ?w1 PNone ()) = Inr ?res1 \<and>
              snd (confluence_lambda_handler ?w2 PNone ()) = Inr ?res2"
    by (simp add: example_confluence_run(3))
  have differ: "second (now ?w1) \<noteq> second (now ?w2)"
    by (simp add: example_world_simps clock_030405_def)
  from object_names_distinct_by_second [OF r1 r2, of PNone "()" ?res1 PNone "()" ?res2,
         THEN conjunct1, THEN mp, OF runs] differ runs
  show ?thesis
    by simp
qed


end
